theory Spec2Isabelle
  imports Main "HOL-Library.Sublist" "HOL-Library.Multiset"
begin

section \<open>Policy documents (package config, in src/config/merger.go)\<close>

text \<open>
  A Go pointer field (\<^verbatim>\<open>*bool\<close>, \<^verbatim>\<open>*int\<close>, \<^verbatim>\<open>*MergeConfig\<close>) is an \<open>option\<close>:
  \<open>None\<close> is the nil pointer. A slice field is a \<open>list option\<close>, because the merge
  tests the slice against nil: \<open>None\<close> is the nil slice and \<open>Some []\<close> an empty,
  non-nil one. A plain \<^verbatim>\<open>string\<close> field is unset when it is the empty string.
\<close>

record MergeConfig =
  AllowMergeCommit :: "bool option"
  AllowSquashMerge :: "bool option"
  AllowRebaseMerge :: "bool option"
  AllowAutoMerge :: "bool option"
  DeleteBranchOnMerge :: "bool option"
  AlwaysSuggestUpdatingPullRequestBranches :: "bool option"

record DependabotSettingsConfig =
  Alerts :: "bool option"
  SecurityUpdates :: "bool option"

record SettingsConfig =
  Issues :: "bool option"
  Wiki :: "bool option"
  Projects :: "bool option"
  Discussions :: "bool option"
  AllowActionsToApprovePRs :: "bool option"
  PullRequestCreationPolicy :: string
  Merge :: "MergeConfig option"
  DefaultBranch :: string
  Dependabot :: "DependabotSettingsConfig option"

record WorkflowConfig =
  Path :: string
  WorkflowConfig_Reference :: string

record ActionsConfig =
  RequirePinnedVersions :: "bool option"
  RequiredWorkflows :: "WorkflowConfig list option"
  RequireTimeout :: "bool option"
  MaxTimeoutMinutes :: "int option"
  RequireMinimalPermissions :: "bool option"

record RulesetConfig =
  RulesetConfig_Name :: string
  RulesetConfig_Reference :: string

record FileConfig =
  FileConfig_Name :: string
  FileConfig_Reference :: string

record ChecksConfig =
  Settings :: "SettingsConfig option"
  Actions :: "ActionsConfig option"
  Rulesets :: "RulesetConfig list option"
  Files :: "FileConfig list option"

record Config =
  Checks :: ChecksConfig

section \<open>Merging the owner and the repository document (src/config/merger.go)\<close>

definition mergeBoolPtr :: "bool option \<Rightarrow> bool option \<Rightarrow> bool option" where
  "mergeBoolPtr owner repo = (if repo \<noteq> None then repo else owner)"

definition mergeIntPtr :: "int option \<Rightarrow> int option \<Rightarrow> int option" where
  "mergeIntPtr owner repo = (if repo \<noteq> None then repo else owner)"

definition mergeString :: "string \<Rightarrow> string \<Rightarrow> string" where
  "mergeString owner repo = (if repo \<noteq> [] then repo else owner)"

fun mergeMergeConfig :: "MergeConfig option \<Rightarrow> MergeConfig option \<Rightarrow> MergeConfig option" where
  "mergeMergeConfig None None = None"
| "mergeMergeConfig None (Some repo) = Some repo"
| "mergeMergeConfig (Some owner) None = Some owner"
| "mergeMergeConfig (Some owner) (Some repo) = Some \<lparr>
     AllowMergeCommit = mergeBoolPtr (AllowMergeCommit owner) (AllowMergeCommit repo),
     AllowSquashMerge = mergeBoolPtr (AllowSquashMerge owner) (AllowSquashMerge repo),
     AllowRebaseMerge = mergeBoolPtr (AllowRebaseMerge owner) (AllowRebaseMerge repo),
     AllowAutoMerge = mergeBoolPtr (AllowAutoMerge owner) (AllowAutoMerge repo),
     DeleteBranchOnMerge = mergeBoolPtr (DeleteBranchOnMerge owner) (DeleteBranchOnMerge repo),
     AlwaysSuggestUpdatingPullRequestBranches =
       mergeBoolPtr (AlwaysSuggestUpdatingPullRequestBranches owner)
         (AlwaysSuggestUpdatingPullRequestBranches repo) \<rparr>"

fun mergeDependabotSettingsConfig ::
  "DependabotSettingsConfig option \<Rightarrow> DependabotSettingsConfig option \<Rightarrow> DependabotSettingsConfig option" where
  "mergeDependabotSettingsConfig None None = None"
| "mergeDependabotSettingsConfig None (Some repo) = Some repo"
| "mergeDependabotSettingsConfig (Some owner) None = Some owner"
| "mergeDependabotSettingsConfig (Some owner) (Some repo) = Some \<lparr>
     Alerts = mergeBoolPtr (Alerts owner) (Alerts repo),
     SecurityUpdates = mergeBoolPtr (SecurityUpdates owner) (SecurityUpdates repo) \<rparr>"

text \<open>
  The struct literal of \<^verbatim>\<open>mergeSettingsConfig\<close> names eight of the nine fields of
  \<^verbatim>\<open>SettingsConfig\<close>; \<^verbatim>\<open>PullRequestCreationPolicy\<close> is not among them, so Go
  gives it the zero value, the empty string.
\<close>

fun mergeSettingsConfig :: "SettingsConfig option \<Rightarrow> SettingsConfig option \<Rightarrow> SettingsConfig option" where
  "mergeSettingsConfig None None = None"
| "mergeSettingsConfig None (Some repo) = Some repo"
| "mergeSettingsConfig (Some owner) None = Some owner"
| "mergeSettingsConfig (Some owner) (Some repo) = Some \<lparr>
     Issues = mergeBoolPtr (Issues owner) (Issues repo),
     Wiki = mergeBoolPtr (Wiki owner) (Wiki repo),
     Projects = mergeBoolPtr (Projects owner) (Projects repo),
     Discussions = mergeBoolPtr (Discussions owner) (Discussions repo),
     AllowActionsToApprovePRs =
       mergeBoolPtr (AllowActionsToApprovePRs owner) (AllowActionsToApprovePRs repo),
     PullRequestCreationPolicy = [],
     Merge = mergeMergeConfig (Merge owner) (Merge repo),
     DefaultBranch = mergeString (DefaultBranch owner) (DefaultBranch repo),
     Dependabot = mergeDependabotSettingsConfig (Dependabot owner) (Dependabot repo) \<rparr>"

fun mergeActionsConfig :: "ActionsConfig option \<Rightarrow> ActionsConfig option \<Rightarrow> ActionsConfig option" where
  "mergeActionsConfig None None = None"
| "mergeActionsConfig None (Some repo) = Some repo"
| "mergeActionsConfig (Some owner) None = Some owner"
| "mergeActionsConfig (Some owner) (Some repo) = Some \<lparr>
     RequirePinnedVersions =
       mergeBoolPtr (RequirePinnedVersions owner) (RequirePinnedVersions repo),
     RequiredWorkflows =
       (if RequiredWorkflows repo \<noteq> None then RequiredWorkflows repo else RequiredWorkflows owner),
     RequireTimeout = mergeBoolPtr (RequireTimeout owner) (RequireTimeout repo),
     MaxTimeoutMinutes = mergeIntPtr (MaxTimeoutMinutes owner) (MaxTimeoutMinutes repo),
     RequireMinimalPermissions =
       mergeBoolPtr (RequireMinimalPermissions owner) (RequireMinimalPermissions repo) \<rparr>"

definition mergeRulesets ::
  "RulesetConfig list option \<Rightarrow> RulesetConfig list option \<Rightarrow> RulesetConfig list option" where
  "mergeRulesets owner repo = (if repo \<noteq> None then repo else owner)"

definition mergeFiles ::
  "FileConfig list option \<Rightarrow> FileConfig list option \<Rightarrow> FileConfig list option" where
  "mergeFiles owner repo = (if repo \<noteq> None then repo else owner)"

fun MergeConfigs :: "Config option \<Rightarrow> Config option \<Rightarrow> Config option" where
  "MergeConfigs None None = None"
| "MergeConfigs None (Some repo) = Some repo"
| "MergeConfigs (Some owner) None = Some owner"
| "MergeConfigs (Some owner) (Some repo) = Some \<lparr> Checks = \<lparr>
     Settings = mergeSettingsConfig (Settings (Checks owner)) (Settings (Checks repo)),
     Actions = mergeActionsConfig (Actions (Checks owner)) (Actions (Checks repo)),
     Rulesets = mergeRulesets (Rulesets (Checks owner)) (Rulesets (Checks repo)),
     Files = mergeFiles (Files (Checks owner)) (Files (Checks repo)) \<rparr> \<rparr>"

section \<open>Strings (the Go standard library functions the code calls)\<close>

text \<open>
  Go strings are byte sequences, HOL strings are lists of 8-bit characters.
  \<open>contains s substr\<close> is \<^verbatim>\<open>strings.Contains(s, substr)\<close>; \<open>SplitN s sep n\<close> is
  \<^verbatim>\<open>strings.SplitN(s, sep, n)\<close> for a separator of one byte and \<open>n \<ge> 0\<close> (the code
  splits on \<^verbatim>\<open>"/"\<close> with \<open>n = 3\<close>): at most \<open>n\<close> pieces, the last one the unsplit rest.
  \<open>itoa\<close> is the \<^verbatim>\<open>%d\<close> verb of \<^verbatim>\<open>fmt.Sprintf\<close>, \<open>quoted\<close> the \<^verbatim>\<open>'%s'\<close> of the
  error messages.
\<close>

fun contains :: "string \<Rightarrow> string \<Rightarrow> bool" where
  "contains [] substr = (substr = [])"
| "contains (c # cs) substr = (prefix substr (c # cs) \<or> contains cs substr)"

fun SplitN :: "string \<Rightarrow> char \<Rightarrow> nat \<Rightarrow> string list" where
  "SplitN s sep 0 = []"
| "SplitN s sep (Suc n) =
     (if n = 0 \<or> sep \<notin> set s then [s]
      else takeWhile (\<lambda>c. c \<noteq> sep) s # SplitN (tl (dropWhile (\<lambda>c. c \<noteq> sep) s)) sep n)"

fun digits :: "nat \<Rightarrow> string" where
  "digits n =
     (if n < 10 then [''0123456789'' ! n]
      else digits (n div 10) @ [''0123456789'' ! (n mod 10)])"

definition itoa :: "int \<Rightarrow> string" where
  "itoa i = (if i < 0 then CHR ''-'' # digits (nat (- i)) else digits (nat i))"

definition quoted :: "string \<Rightarrow> string" where
  "quoted s = [CHR 0x27] @ s @ [CHR 0x27]"

section \<open>API types (src/github/types.go)\<close>

record Repository =
  Repository_Name :: string
  FullName :: string
  Repository_DefaultBranch :: string
  Archived :: bool
  HasIssues :: bool
  HasWiki :: bool
  HasProjects :: bool
  HasDiscussions :: bool
  Repository_PullRequestCreationPolicy :: string
  Repository_AllowMergeCommit :: bool
  Repository_AllowSquashMerge :: bool
  Repository_AllowRebaseMerge :: bool
  Repository_AllowAutoMerge :: bool
  Repository_DeleteBranchOnMerge :: bool
  AllowUpdateBranch :: bool

record WorkflowPermissions =
  DefaultWorkflowPermissions :: string
  CanApprovePullRequestReviews :: bool

text \<open>
  \<open>json_value\<close> stands for the values of Go's \<^verbatim>\<open>any\<close> that a decoded JSON document
  holds; the code never looks inside one. A rule's \<^verbatim>\<open>map[string]any\<close> is a map
  option (\<open>None\<close> the nil map). The slices of these types are only measured and
  iterated, where nil and empty behave alike, so they are plain lists.
\<close>

typedecl json_value

record RefNameCondition =
  Include :: "string list"
  Exclude :: "string list"

record RulesetConditions =
  RefName :: "RefNameCondition option"

record RulesetRule =
  RulesetRule_Type :: string
  Parameters :: "(string \<rightharpoonup> json_value) option"

record BypassActor =
  ActorID :: int
  ActorType :: string
  BypassMode :: string

record Ruleset =
  ID :: int
  Ruleset_Name :: string
  Target :: string
  Enforcement :: string
  Conditions :: "RulesetConditions option"
  Rules :: "RulesetRule list"
  BypassActors :: "BypassActor list"

record FileContent =
  FileContent_Type :: string
  Encoding :: string
  Size :: int
  FileContent_Name :: string
  FileContent_Path :: string
  Content :: string
  SHA :: string
  URL :: string
  GitURL :: string
  HTMLURL :: string
  DownloadURL :: string

record AutomatedSecurityFixes =
  Enabled :: bool
  Paused :: bool

record RulesetCreateRequest =
  RulesetCreateRequest_Name :: string
  RulesetCreateRequest_Target :: string
  RulesetCreateRequest_Enforcement :: string
  RulesetCreateRequest_Conditions :: "RulesetConditions option"
  RulesetCreateRequest_Rules :: "RulesetRule list"
  RulesetCreateRequest_BypassActors :: "BypassActor list"

record RepoUpdateRequest =
  RepoUpdateRequest_HasIssues :: "bool option"
  RepoUpdateRequest_HasWiki :: "bool option"
  RepoUpdateRequest_HasProjects :: "bool option"
  RepoUpdateRequest_HasDiscussions :: "bool option"
  RepoUpdateRequest_PullRequestCreationPolicy :: "string option"
  RepoUpdateRequest_AllowMergeCommit :: "bool option"
  RepoUpdateRequest_AllowSquashMerge :: "bool option"
  RepoUpdateRequest_AllowRebaseMerge :: "bool option"
  RepoUpdateRequest_AllowAutoMerge :: "bool option"
  RepoUpdateRequest_DeleteBranchOnMerge :: "bool option"
  RepoUpdateRequest_AllowUpdateBranch :: "bool option"

section \<open>Errors\<close>

text \<open>
  A Go \<^verbatim>\<open>error\<close> is a value of \<open>error\<close>; the nil error is \<open>None\<close> of \<open>error option\<close>.
  \<open>TransportError m\<close> is an error returned by the REST transport and \<open>LibraryError m\<close>
  one returned by the standard library (\<^verbatim>\<open>os\<close>, \<^verbatim>\<open>encoding/json\<close>,
  \<^verbatim>\<open>encoding/base64\<close>), each with the text of its \<^verbatim>\<open>Error()\<close>. \<open>ErrorString m\<close> is
  \<^verbatim>\<open>errors.New(m)\<close> or a \<^verbatim>\<open>fmt.Errorf\<close> without \<^verbatim>\<open>%w\<close>; \<open>WrapError p e\<close> is
  \<^verbatim>\<open>fmt.Errorf(p + ": %w", e)\<close>; \<open>RateLimitExceeded d e\<close> is
  \<^verbatim>\<open>fmt.Errorf("rate limit exceeded, waited %v: %w", d, e)\<close>.
  \<open>error_message\<close> is \<^verbatim>\<open>Error()\<close>; its first argument prints a \<^verbatim>\<open>time.Duration\<close>
  (\<^verbatim>\<open>Duration.String\<close> of the standard library).
\<close>

datatype error =
    TransportError string
  | LibraryError string
  | ErrorString string
  | WrapError string error
  | RateLimitExceeded int error

fun error_message :: "(int \<Rightarrow> string) \<Rightarrow> error \<Rightarrow> string" where
  "error_message fmt (TransportError m) = m"
| "error_message fmt (LibraryError m) = m"
| "error_message fmt (ErrorString m) = m"
| "error_message fmt (WrapError p e) = p @ '': '' @ error_message fmt e"
| "error_message fmt (RateLimitExceeded d e) =
     ''rate limit exceeded, waited '' @ fmt d @ '': '' @ error_message fmt e"

section \<open>The environment of the client\<close>

text \<open>
  The transport, the file system and the library codecs are outside the repository
  and are parameters of the model. \<open>rest env n method path body\<close> is the answer of the
  REST transport to the \<open>n\<close>-th request of the run (counting from 0): the decoded
  response, or the text of the transport's error. The transport decodes into the
  variable the caller passes; a caller that finds a value of another shape keeps the
  zero value of its variable. \<open>os_ReadFile\<close> gives the outcome of \<^verbatim>\<open>os.ReadFile\<close>,
  with the error classified as \<^verbatim>\<open>os.IsNotExist\<close> does.
\<close>

datatype payload =
    NoPayload
  | RepositoryPayload Repository
  | WorkflowPermissionsPayload WorkflowPermissions
  | RulesetsPayload "Ruleset list"
  | RulesetPayload Ruleset
  | FileContentPayload FileContent
  | AutomatedSecurityFixesPayload AutomatedSecurityFixes

datatype response = Success payload | Failure string

datatype read_result = ReadOk string | ReadNotExist string | ReadFailed string

datatype body =
    RepoUpdateBody RepoUpdateRequest
  | WorkflowPermissionsBody bool
  | RulesetBody RulesetCreateRequest

record Env =
  rest :: "nat \<Rightarrow> string \<Rightarrow> string \<Rightarrow> string \<Rightarrow> response"
  os_ReadFile :: "string \<Rightarrow> read_result"
  json_Encode :: "body \<Rightarrow> string + string"
  base64_DecodeString :: "string \<Rightarrow> string + string"
  Duration_String :: "int \<Rightarrow> string"

definition decode_Repository :: "payload \<Rightarrow> Repository" where
  "decode_Repository p = (case p of RepositoryPayload r \<Rightarrow> r
     | _ \<Rightarrow> \<lparr> Repository_Name = [], FullName = [], Repository_DefaultBranch = [],
           Archived = False, HasIssues = False, HasWiki = False, HasProjects = False,
           HasDiscussions = False, Repository_PullRequestCreationPolicy = [],
           Repository_AllowMergeCommit = False, Repository_AllowSquashMerge = False,
           Repository_AllowRebaseMerge = False, Repository_AllowAutoMerge = False,
           Repository_DeleteBranchOnMerge = False, AllowUpdateBranch = False \<rparr>)"

definition decode_WorkflowPermissions :: "payload \<Rightarrow> WorkflowPermissions" where
  "decode_WorkflowPermissions p = (case p of WorkflowPermissionsPayload w \<Rightarrow> w
     | _ \<Rightarrow> \<lparr> DefaultWorkflowPermissions = [], CanApprovePullRequestReviews = False \<rparr>)"

definition decode_Rulesets :: "payload \<Rightarrow> Ruleset list" where
  "decode_Rulesets p = (case p of RulesetsPayload rs \<Rightarrow> rs | _ \<Rightarrow> [])"

definition decode_Ruleset :: "payload \<Rightarrow> Ruleset" where
  "decode_Ruleset p = (case p of RulesetPayload r \<Rightarrow> r
     | _ \<Rightarrow> \<lparr> ID = 0, Ruleset_Name = [], Target = [], Enforcement = [], Conditions = None,
           Rules = [], BypassActors = [] \<rparr>)"

definition decode_FileContent :: "payload \<Rightarrow> FileContent" where
  "decode_FileContent p = (case p of FileContentPayload f \<Rightarrow> f
     | _ \<Rightarrow> \<lparr> FileContent_Type = [], Encoding = [], Size = 0, FileContent_Name = [],
           FileContent_Path = [], Content = [], SHA = [], URL = [], GitURL = [], HTMLURL = [],
           DownloadURL = [] \<rparr>)"

definition decode_AutomatedSecurityFixes :: "payload \<Rightarrow> AutomatedSecurityFixes" where
  "decode_AutomatedSecurityFixes p = (case p of AutomatedSecurityFixesPayload a \<Rightarrow> a
     | _ \<Rightarrow> \<lparr> Enabled = False, Paused = False \<rparr>)"

section \<open>The client (package github, in src/github/files.go)\<close>

text \<open>
  The state of a \<^verbatim>\<open>Client\<close>: its owner and repository, and the cache, a Go
  \<^verbatim>\<open>map[string]any\<close> whose values are the four dynamic types the code stores.
  Two more fields record what the client does to the outside: \<open>calls\<close>, the requests
  sent to the transport so far (method, path, encoded body), and \<open>slept\<close>, the
  durations passed to \<^verbatim>\<open>time.Sleep\<close> so far, both oldest first. Durations are
  nanoseconds, as \<^verbatim>\<open>time.Duration\<close> is; every duration the retry loop computes lies
  between 0 and two minutes, far inside \<^verbatim>\<open>int64\<close>. The mutex of the cache and the
  diagnostic lines written to standard error have no counterpart here.
\<close>

datatype cached =
    CachedRepository Repository
  | CachedRulesets "Ruleset list"
  | CachedRuleset Ruleset
  | CachedBytes string

record Client =
  Client_owner :: string
  Client_repo :: string
  cache :: "string \<rightharpoonup> cached"
  calls :: "(string \<times> string \<times> string) list"
  slept :: "int list"

definition maxBackoffDuration :: int where
  "maxBackoffDuration = 1 * (60 * 1000000000)"

definition initialBackoff :: int where
  "initialBackoff = 1 * 1000000000"

definition getFromCache :: "Client \<Rightarrow> string \<Rightarrow> cached option" where
  "getFromCache c key = cache c key"

definition setCache :: "string \<Rightarrow> cached \<Rightarrow> Client \<Rightarrow> Client" where
  "setCache key v c = c\<lparr>cache := (cache c)(key \<mapsto> v)\<rparr>"

definition encodeBody :: "Env \<Rightarrow> body option \<Rightarrow> error + string" where
  "encodeBody env b = (case b of
       None \<Rightarrow> Inr []
     | Some v \<Rightarrow> (case json_Encode env v of
           Inl e \<Rightarrow> Inl (WrapError ''failed to encode request body'' (LibraryError e))
         | Inr buf \<Rightarrow> Inr buf))"

definition isRateLimitError :: "string option \<Rightarrow> bool" where
  "isRateLimitError err = (case err of
       None \<Rightarrow> False
     | Some errStr \<Rightarrow> contains errStr ''rate limit'' \<or> contains errStr ''403''
         \<or> contains errStr ''secondary rate limit'')"

text \<open>
  \<open>send\<close> is one call of the transport (\<^verbatim>\<open>c.rest.Get\<close>, \<^verbatim>\<open>Post\<close>, \<^verbatim>\<open>Patch\<close>,
  \<^verbatim>\<open>Put\<close>, \<^verbatim>\<open>Delete\<close>); \<open>attempt\<close> is the \<^verbatim>\<open>switch method\<close> of one turn of the loop
  of \<^verbatim>\<open>doWithRetry\<close>, which returns early on a body that does not encode and on an
  unknown method.
\<close>

definition send :: "Env \<Rightarrow> string \<Rightarrow> string \<Rightarrow> string \<Rightarrow> Client \<Rightarrow> response \<times> Client" where
  "send env method path b c =
     (rest env (length (calls c)) method path b, c\<lparr>calls := calls c @ [(method, path, b)]\<rparr>)"

definition attempt ::
  "Env \<Rightarrow> string \<Rightarrow> string \<Rightarrow> body option \<Rightarrow> Client \<Rightarrow> error + response \<times> Client" where
  "attempt env method path b c =
     (if method = ''GET'' then Inr (send env method path [] c)
      else if method = ''POST'' \<or> method = ''PATCH'' \<or> method = ''PUT'' then
        (case encodeBody env b of
           Inl encErr \<Rightarrow> Inl encErr
         | Inr bodyReader \<Rightarrow> Inr (send env method path bodyReader c))
      else if method = ''DELETE'' then Inr (send env method path [] c)
      else Inl (ErrorString (''unsupported method: '' @ method)))"

text \<open>
  The loop of \<^verbatim>\<open>doWithRetry\<close>, with its two variables \<open>backoff\<close> and \<open>totalWait\<close> as
  arguments. Nothing in the loop itself bounds the number of turns, so it is a partial
  function: \<open>None\<close> is a loop that never returns.
\<close>

partial_function (option) doWithRetry_loop ::
  "Env \<Rightarrow> string \<Rightarrow> string \<Rightarrow> body option \<Rightarrow> int \<Rightarrow> int \<Rightarrow> Client
    \<Rightarrow> ((error + payload) \<times> Client) option" where
  "doWithRetry_loop env method path b backoff totalWait c =
     (case attempt env method path b c of
        Inl e \<Rightarrow> Some (Inl e, c)
      | Inr (Success result, c1) \<Rightarrow> Some (Inr result, c1)
      | Inr (Failure err, c1) \<Rightarrow>
          if \<not> isRateLimitError (Some err) then Some (Inl (TransportError err), c1)
          else if totalWait \<ge> maxBackoffDuration then
            Some (Inl (RateLimitExceeded totalWait (TransportError err)), c1)
          else
            (let c2 = c1\<lparr>slept := slept c1 @ [backoff]\<rparr>;
                 totalWait2 = totalWait + backoff;
                 backoff2 = backoff * 2;
                 backoff3 = (if backoff2 > maxBackoffDuration - totalWait2
                             then maxBackoffDuration - totalWait2 else backoff2)
             in doWithRetry_loop env method path b backoff3 totalWait2 c2))"

definition doWithRetry ::
  "Env \<Rightarrow> string \<Rightarrow> string \<Rightarrow> body option \<Rightarrow> Client \<Rightarrow> ((error + payload) \<times> Client) option" where
  "doWithRetry env method path b c = doWithRetry_loop env method path b initialBackoff 0 c"

text \<open>
  \<^verbatim>\<open>doWithRetry\<close> returns an \<^verbatim>\<open>error\<close> and fills the variable behind \<^verbatim>\<open>result\<close>;
  the model returns the error or the decoded response. \<open>returned_error\<close> is the error
  alone, for the callers that pass no variable.
\<close>

definition returned_error :: "error + payload \<Rightarrow> error option" where
  "returned_error r = (case r of Inl err \<Rightarrow> Some err | Inr _ \<Rightarrow> None)"

subsection \<open>Read operations\<close>

definition GetRepository :: "Env \<Rightarrow> Client \<Rightarrow> ((error + Repository) \<times> Client) option" where
  "GetRepository env c =
     (let cacheKey = ''repo:'' @ Client_owner c @ ''/'' @ Client_repo c in
      case getFromCache c cacheKey of
        Some (CachedRepository repo) \<Rightarrow> Some (Inr repo, c)
      | _ \<Rightarrow>
        (case doWithRetry env ''GET'' (''repos/'' @ Client_owner c @ ''/'' @ Client_repo c) None c of
           None \<Rightarrow> None
         | Some (Inl err, c1) \<Rightarrow> Some (Inl err, c1)
         | Some (Inr result, c1) \<Rightarrow>
             (let repo = decode_Repository result in
              if Archived repo then
                Some (Inl (ErrorString (''repository '' @ Client_owner c @ ''/'' @ Client_repo c
                                        @ '' is archived'')), c1)
              else Some (Inr repo, setCache cacheKey (CachedRepository repo) c1))))"

definition GetWorkflowPermissions ::
  "Env \<Rightarrow> Client \<Rightarrow> ((error + WorkflowPermissions) \<times> Client) option" where
  "GetWorkflowPermissions env c =
     (case doWithRetry env ''GET''
             (''repos/'' @ Client_owner c @ ''/'' @ Client_repo c @ ''/actions/permissions/workflow'')
             None c of
        None \<Rightarrow> None
      | Some (Inl err, c1) \<Rightarrow> Some (Inl err, c1)
      | Some (Inr result, c1) \<Rightarrow> Some (Inr (decode_WorkflowPermissions result), c1))"

definition GetRulesets :: "Env \<Rightarrow> Client \<Rightarrow> ((error + Ruleset list) \<times> Client) option" where
  "GetRulesets env c =
     (let cacheKey = ''rulesets:'' @ Client_owner c @ ''/'' @ Client_repo c in
      case getFromCache c cacheKey of
        Some (CachedRulesets rulesets) \<Rightarrow> Some (Inr rulesets, c)
      | _ \<Rightarrow>
        (case doWithRetry env ''GET''
                (''repos/'' @ Client_owner c @ ''/'' @ Client_repo c @ ''/rulesets'') None c of
           None \<Rightarrow> None
         | Some (Inl err, c1) \<Rightarrow> Some (Inl err, c1)
         | Some (Inr result, c1) \<Rightarrow>
             (let rulesets = decode_Rulesets result in
              Some (Inr rulesets, setCache cacheKey (CachedRulesets rulesets) c1))))"

definition GetRuleset :: "Env \<Rightarrow> int \<Rightarrow> Client \<Rightarrow> ((error + Ruleset) \<times> Client) option" where
  "GetRuleset env rulesetID c =
     (let cacheKey = ''ruleset:'' @ Client_owner c @ ''/'' @ Client_repo c @ ''/'' @ itoa rulesetID in
      case getFromCache c cacheKey of
        Some (CachedRuleset ruleset) \<Rightarrow> Some (Inr ruleset, c)
      | _ \<Rightarrow>
        (case doWithRetry env ''GET''
                (''repos/'' @ Client_owner c @ ''/'' @ Client_repo c @ ''/rulesets/'' @ itoa rulesetID)
                None c of
           None \<Rightarrow> None
         | Some (Inl err, c1) \<Rightarrow> Some (Inl err, c1)
         | Some (Inr result, c1) \<Rightarrow>
             (let ruleset = decode_Ruleset result in
              Some (Inr ruleset, setCache cacheKey (CachedRuleset ruleset) c1))))"

text \<open>
  The tail shared by \<^verbatim>\<open>GetFileContent\<close> and \<^verbatim>\<open>GetRemoteFileContent\<close> after the
  request: the encoding check, the base64 decoding of the content without its line
  feeds, and the store into the cache.
\<close>

definition decode_and_cache ::
  "Env \<Rightarrow> string \<Rightarrow> FileContent \<Rightarrow> Client \<Rightarrow> (error + string) \<times> Client" where
  "decode_and_cache env cacheKey content c1 =
     (if Encoding content \<noteq> ''base64'' then
        (Inl (ErrorString (''unexpected encoding: '' @ Encoding content)), c1)
      else
        (case base64_DecodeString env (filter (\<lambda>ch. ch \<noteq> CHR 0x0A) (Content content)) of
           Inl e \<Rightarrow> (Inl (WrapError ''failed to decode content'' (LibraryError e)), c1)
         | Inr decoded \<Rightarrow> (Inr decoded, setCache cacheKey (CachedBytes decoded) c1)))"

definition GetFileContent :: "Env \<Rightarrow> string \<Rightarrow> Client \<Rightarrow> ((error + string) \<times> Client) option" where
  "GetFileContent env filePath c =
     (let cacheKey = ''file:'' @ Client_owner c @ ''/'' @ Client_repo c @ ''/'' @ filePath in
      case getFromCache c cacheKey of
        Some (CachedBytes content) \<Rightarrow> Some (Inr content, c)
      | _ \<Rightarrow>
        (case doWithRetry env ''GET''
                (''repos/'' @ Client_owner c @ ''/'' @ Client_repo c @ ''/contents/'' @ filePath)
                None c of
           None \<Rightarrow> None
         | Some (Inl err, c1) \<Rightarrow> Some (Inl err, c1)
         | Some (Inr result, c1) \<Rightarrow>
             Some (decode_and_cache env cacheKey (decode_FileContent result) c1)))"

definition GetRemoteFileContent ::
  "Env \<Rightarrow> string \<Rightarrow> string \<Rightarrow> string \<Rightarrow> Client \<Rightarrow> ((error + string) \<times> Client) option" where
  "GetRemoteFileContent env owner repo filePath c =
     (let cacheKey = ''remote-file:'' @ owner @ ''/'' @ repo @ ''/'' @ filePath in
      case getFromCache c cacheKey of
        Some (CachedBytes content) \<Rightarrow> Some (Inr content, c)
      | _ \<Rightarrow>
        (case doWithRetry env ''GET''
                (''repos/'' @ owner @ ''/'' @ repo @ ''/contents/'' @ filePath) None c of
           None \<Rightarrow> None
         | Some (Inl err, c1) \<Rightarrow> Some (Inl err, c1)
         | Some (Inr result, c1) \<Rightarrow>
             Some (decode_and_cache env cacheKey (decode_FileContent result) c1)))"

text \<open>
  \<^verbatim>\<open>IsNotFound\<close> first asks \<^verbatim>\<open>errors.As\<close> for the package's own \<^verbatim>\<open>HTTPError\<close>;
  nothing in the repository builds one, and the transport cannot, so that branch is
  never taken and the text of the error decides.
\<close>

definition IsNotFound :: "Env \<Rightarrow> error option \<Rightarrow> bool" where
  "IsNotFound env err = (case err of
       None \<Rightarrow> False
     | Some e \<Rightarrow> contains (error_message (Duration_String env) e) ''404''
         \<or> contains (error_message (Duration_String env) e) ''Not Found'')"

definition GetVulnerabilityAlertsEnabled ::
  "Env \<Rightarrow> Client \<Rightarrow> ((error + bool) \<times> Client) option" where
  "GetVulnerabilityAlertsEnabled env c =
     (case doWithRetry env ''GET''
             (''repos/'' @ Client_owner c @ ''/'' @ Client_repo c @ ''/vulnerability-alerts'')
             None c of
        None \<Rightarrow> None
      | Some (Inl err, c1) \<Rightarrow>
          if IsNotFound env (Some err) then Some (Inr False, c1) else Some (Inl err, c1)
      | Some (Inr result, c1) \<Rightarrow> Some (Inr True, c1))"

definition GetAutomatedSecurityFixes ::
  "Env \<Rightarrow> Client \<Rightarrow> ((error + AutomatedSecurityFixes) \<times> Client) option" where
  "GetAutomatedSecurityFixes env c =
     (case doWithRetry env ''GET''
             (''repos/'' @ Client_owner c @ ''/'' @ Client_repo c @ ''/automated-security-fixes'')
             None c of
        None \<Rightarrow> None
      | Some (Inl err, c1) \<Rightarrow> Some (Inl err, c1)
      | Some (Inr result, c1) \<Rightarrow> Some (Inr (decode_AutomatedSecurityFixes result), c1))"

subsection \<open>Write operations\<close>

definition EnableVulnerabilityAlerts :: "Env \<Rightarrow> Client \<Rightarrow> (error option \<times> Client) option" where
  "EnableVulnerabilityAlerts env c =
     map_option (\<lambda>(r, c1). (returned_error r, c1))
       (doWithRetry env ''PUT''
          (''repos/'' @ Client_owner c @ ''/'' @ Client_repo c @ ''/vulnerability-alerts'') None c)"

definition DisableVulnerabilityAlerts :: "Env \<Rightarrow> Client \<Rightarrow> (error option \<times> Client) option" where
  "DisableVulnerabilityAlerts env c =
     map_option (\<lambda>(r, c1). (returned_error r, c1))
       (doWithRetry env ''DELETE''
          (''repos/'' @ Client_owner c @ ''/'' @ Client_repo c @ ''/vulnerability-alerts'') None c)"

definition EnableAutomatedSecurityFixes :: "Env \<Rightarrow> Client \<Rightarrow> (error option \<times> Client) option" where
  "EnableAutomatedSecurityFixes env c =
     map_option (\<lambda>(r, c1). (returned_error r, c1))
       (doWithRetry env ''PUT''
          (''repos/'' @ Client_owner c @ ''/'' @ Client_repo c @ ''/automated-security-fixes'') None c)"

definition DisableAutomatedSecurityFixes :: "Env \<Rightarrow> Client \<Rightarrow> (error option \<times> Client) option" where
  "DisableAutomatedSecurityFixes env c =
     map_option (\<lambda>(r, c1). (returned_error r, c1))
       (doWithRetry env ''DELETE''
          (''repos/'' @ Client_owner c @ ''/'' @ Client_repo c @ ''/automated-security-fixes'') None c)"

definition UpdateRepository ::
  "Env \<Rightarrow> RepoUpdateRequest \<Rightarrow> Client \<Rightarrow> (error option \<times> Client) option" where
  "UpdateRepository env req c =
     map_option (\<lambda>(r, c1). (returned_error r, c1))
       (doWithRetry env ''PATCH'' (''repos/'' @ Client_owner c @ ''/'' @ Client_repo c)
          (Some (RepoUpdateBody req)) c)"

definition UpdateWorkflowPermissions ::
  "Env \<Rightarrow> bool \<Rightarrow> Client \<Rightarrow> (error option \<times> Client) option" where
  "UpdateWorkflowPermissions env canApprove c =
     map_option (\<lambda>(r, c1). (returned_error r, c1))
       (doWithRetry env ''PUT''
          (''repos/'' @ Client_owner c @ ''/'' @ Client_repo c @ ''/actions/permissions/workflow'')
          (Some (WorkflowPermissionsBody canApprove)) c)"

definition CreateRuleset ::
  "Env \<Rightarrow> RulesetCreateRequest \<Rightarrow> Client \<Rightarrow> ((error + Ruleset) \<times> Client) option" where
  "CreateRuleset env req c =
     (case doWithRetry env ''POST''
             (''repos/'' @ Client_owner c @ ''/'' @ Client_repo c @ ''/rulesets'')
             (Some (RulesetBody req)) c of
        None \<Rightarrow> None
      | Some (Inl err, c1) \<Rightarrow> Some (Inl err, c1)
      | Some (Inr result, c1) \<Rightarrow> Some (Inr (decode_Ruleset result), c1))"

definition UpdateRuleset ::
  "Env \<Rightarrow> int \<Rightarrow> RulesetCreateRequest \<Rightarrow> Client \<Rightarrow> (error option \<times> Client) option" where
  "UpdateRuleset env rulesetID req c =
     map_option (\<lambda>(r, c1). (returned_error r, c1))
       (doWithRetry env ''PUT''
          (''repos/'' @ Client_owner c @ ''/'' @ Client_repo c @ ''/rulesets/'' @ itoa rulesetID)
          (Some (RulesetBody req)) c)"

section \<open>Reference files (src/github/files.go)\<close>

definition ResolveReferenceFile ::
  "Env \<Rightarrow> string \<Rightarrow> Client \<Rightarrow> ((error + string) \<times> Client) option" where
  "ResolveReferenceFile env reference client =
     (case os_ReadFile env reference of
        ReadOk content \<Rightarrow> Some (Inr content, client)
      | ReadFailed e \<Rightarrow>
          Some (Inl (WrapError ''failed to read local reference file'' (LibraryError e)), client)
      | ReadNotExist e \<Rightarrow>
          (let parts = SplitN reference (CHR ''/'') 3 in
           if length parts < 3 then
             Some (Inl (ErrorString (''reference file '' @ quoted reference
                    @ '' not found locally and invalid remote format (expected owner/repo/path)'')),
                   client)
           else
             (case GetRemoteFileContent env (parts ! 0) (parts ! 1) (parts ! 2) client of
                None \<Rightarrow> None
              | Some (Inl err, c1) \<Rightarrow>
                  Some (Inl (WrapError ''failed to fetch remote reference file'' err), c1)
              | Some (Inr content, c1) \<Rightarrow> Some (Inr content, c1))))"

section \<open>Issues (package checks, src/unnamed/part_005)\<close>

text \<open>
  \<^verbatim>\<open>CheckType\<close> is a Go string type. \<open>Data\<close> is a \<^verbatim>\<open>map[string]string\<close>; reading a
  key that is absent gives the empty string, which \<open>Data_get\<close> writes out.
\<close>

type_synonym CheckType = string

record Issue =
  Issue_Type :: CheckType
  Issue_Name :: string
  Message :: string
  Fixable :: bool
  Data :: "string \<rightharpoonup> string"

definition CheckTypeSettings :: CheckType where "CheckTypeSettings = ''settings''"
definition CheckTypeActions :: CheckType where "CheckTypeActions = ''actions''"
definition CheckTypeRulesets :: CheckType where "CheckTypeRulesets = ''rulesets''"
definition CheckTypeFiles :: CheckType where "CheckTypeFiles = ''files''"

definition DataKeySetting :: string where "DataKeySetting = ''setting''"

definition Data_get :: "Issue \<Rightarrow> string \<Rightarrow> string" where
  "Data_get issue key = (case Data issue key of None \<Rightarrow> [] | Some v \<Rightarrow> v)"

section \<open>Comparing rulesets (package checks, in src/unnamed/part_004)\<close>

definition stringSlicesEqual :: "string list \<Rightarrow> string list \<Rightarrow> bool" where
  "stringSlicesEqual a b =
     (if length a \<noteq> length b then False
      else list_all (\<lambda>i. a ! i = b ! i) [0..<length a])"

definition conditionsMatch :: "RulesetConditions option \<Rightarrow> RulesetConditions option \<Rightarrow> bool" where
  "conditionsMatch actual expected =
     (case (actual, expected) of
        (None, None) \<Rightarrow> True
      | (None, Some _) \<Rightarrow> False
      | (Some _, None) \<Rightarrow> False
      | (Some a, Some e) \<Rightarrow>
          (case (RefName a, RefName e) of
             (None, None) \<Rightarrow> True
           | (None, Some _) \<Rightarrow> False
           | (Some _, None) \<Rightarrow> False
           | (Some ar, Some er) \<Rightarrow>
               if \<not> stringSlicesEqual (Include ar) (Include er) then False
               else if \<not> stringSlicesEqual (Exclude ar) (Exclude er) then False
               else True))"

text \<open>
  \<^verbatim>\<open>json.Marshal\<close> of a parameter map is a parameter of the comparison: \<open>Inl\<close> its
  error, \<open>Inr\<close> the serialisation. A non-nil map has length 0 when its domain is empty.
\<close>

definition ruleParametersMatch ::
  "((string \<rightharpoonup> json_value) \<Rightarrow> string + string)
    \<Rightarrow> (string \<rightharpoonup> json_value) option \<Rightarrow> (string \<rightharpoonup> json_value) option \<Rightarrow> bool" where
  "ruleParametersMatch json_Marshal actual expected =
     (case (actual, expected) of
        (None, None) \<Rightarrow> True
      | (None, Some e) \<Rightarrow> dom e = {}
      | (Some a, None) \<Rightarrow> dom a = {}
      | (Some a, Some e) \<Rightarrow>
          (case json_Marshal a of
             Inl _ \<Rightarrow> False
           | Inr actualJSON \<Rightarrow>
               (case json_Marshal e of
                  Inl _ \<Rightarrow> False
                | Inr expectedJSON \<Rightarrow> actualJSON = expectedJSON)))"

text \<open>
  The two maps by rule type are filled in list order, a later rule of a type
  replacing an earlier one. The loops over a map return false at the first entry
  that fails, so their result is the conjunction over the keys, whatever the order of
  iteration; the keys of a map are the types of the rules it was filled from.
\<close>

definition rulesByType :: "RulesetRule list \<Rightarrow> (string \<rightharpoonup> RulesetRule)" where
  "rulesByType rules = fold (\<lambda>rule m. m(RulesetRule_Type rule \<mapsto> rule)) rules Map.empty"

definition rulesMatch ::
  "((string \<rightharpoonup> json_value) \<Rightarrow> string + string) \<Rightarrow> RulesetRule list \<Rightarrow> RulesetRule list \<Rightarrow> bool" where
  "rulesMatch json_Marshal actual expected =
     (if length actual \<noteq> length expected then False
      else
        (let actualByType = rulesByType actual;
             expectedByType = rulesByType expected
         in list_all (\<lambda>ruleType.
               case expectedByType ruleType of
                 None \<Rightarrow> True
               | Some expectedRule \<Rightarrow>
                   (case actualByType ruleType of
                      None \<Rightarrow> False
                    | Some actualRule \<Rightarrow>
                        ruleParametersMatch json_Marshal (Parameters actualRule)
                          (Parameters expectedRule)))
              (map RulesetRule_Type expected)
            \<and> list_all (\<lambda>ruleType. expectedByType ruleType \<noteq> None)
                 (map RulesetRule_Type actual)))"

definition actorKey :: "BypassActor \<Rightarrow> string" where
  "actorKey actor = itoa (ActorID actor) @ '':'' @ ActorType actor @ '':'' @ BypassMode actor"

definition bypassActorsMatch :: "BypassActor list \<Rightarrow> BypassActor list \<Rightarrow> bool" where
  "bypassActorsMatch actual expected =
     (if length actual \<noteq> length expected then False
      else
        (let expectedSet = fold (\<lambda>actor m. m(actorKey actor \<mapsto> True)) expected Map.empty
         in list_all (\<lambda>actor. case expectedSet (actorKey actor) of None \<Rightarrow> False | Some v \<Rightarrow> v)
              actual))"

definition rulesetsMatch ::
  "((string \<rightharpoonup> json_value) \<Rightarrow> string + string) \<Rightarrow> Ruleset \<Rightarrow> Ruleset \<Rightarrow> bool" where
  "rulesetsMatch json_Marshal actual expected =
     (if Enforcement actual \<noteq> Enforcement expected then False
      else if Target actual \<noteq> Target expected then False
      else if \<not> conditionsMatch (Conditions actual) (Conditions expected) then False
      else if \<not> rulesMatch json_Marshal (Rules actual) (Rules expected) then False
      else if \<not> bypassActorsMatch (BypassActors actual) (BypassActors expected) then False
      else True)"

section \<open>Fixers (package fix, in src/README.md, and src/fix/settings.go)\<close>

record Result =
  Issue :: Issue
  Fixed :: bool
  Error :: "error option"

text \<open>
  A Go function returning \<^verbatim>\<open>(*Result, error)\<close> returns \<open>Inl\<close> the error or \<open>Inr\<close> the
  result.
\<close>

definition failedResult :: "Issue \<Rightarrow> error \<Rightarrow> error + Result" where
  "failedResult issue err = Inr \<lparr> Issue = issue, Fixed = False, Error = Some err \<rparr>"

definition successResult :: "Issue \<Rightarrow> error + Result" where
  "successResult issue = Inr \<lparr> Issue = issue, Fixed = True, Error = None \<rparr>"

text \<open>
  A call of \<^verbatim>\<open>Fix\<close> has three outcomes. It returns, and the value is \<open>Inr\<close> of what it
  returns; or it panics, as Go does when a field is read through a nil pointer, and
  the value is \<open>Inl NilPointerDereference\<close>; or it never returns, which is \<open>None\<close>
  (the fixers call the client, whose retry loop is a partial function). Nothing in the
  package recovers from a panic.
\<close>

datatype panic = NilPointerDereference

subsection \<open>The orchestrator\<close>

text \<open>
  The registry \<^verbatim>\<open>o.fixers\<close> maps a check type to a \<^verbatim>\<open>Fixer\<close>. A fixer is its method
  \<^verbatim>\<open>Fix\<close>: a function of the issue that acts on the state \<open>'w\<close> of whatever it
  repairs. \<open>Fix_loop\<close> is the \<^verbatim>\<open>for\<close> of \<^verbatim>\<open>Orchestrator.Fix\<close> with the slice
  \<^verbatim>\<open>results\<close> it appends to. The loop has no \<^verbatim>\<open>recover\<close>: a panic of a fixer leaves
  the loop and \<^verbatim>\<open>Orchestrator.Fix\<close> at once, with the results gathered so far lost,
  and a fixer that does not return keeps the loop from returning.
  \<open>Orchestrator_Fix\<close> starts the loop on the nil slice and returns the results with
  the nil error.
\<close>

type_synonym 'w Fixer = "Issue \<Rightarrow> 'w \<Rightarrow> ((panic + error + Result) \<times> 'w) option"

fun Fix_loop ::
  "(CheckType \<rightharpoonup> 'w Fixer) \<Rightarrow> Issue list \<Rightarrow> Result list \<Rightarrow> 'w
    \<Rightarrow> ((panic + Result list) \<times> 'w) option" where
  "Fix_loop fixers [] results w = Some (Inr results, w)"
| "Fix_loop fixers (issue # issues) results w =
     (if \<not> Fixable issue then
        Fix_loop fixers issues
          (results @ [\<lparr> Issue = issue, Fixed = False,
                        Error = Some (ErrorString ''issue is not fixable'') \<rparr>]) w
      else
        (case fixers (Issue_Type issue) of
           None \<Rightarrow>
             Fix_loop fixers issues
               (results @ [\<lparr> Issue = issue, Fixed = False,
                             Error = Some (ErrorString (''no fixer for check type ''
                                                        @ quoted (Issue_Type issue))) \<rparr>]) w
         | Some fixer \<Rightarrow>
             (case fixer issue w of
                None \<Rightarrow> None
              | Some (Inl p, w1) \<Rightarrow> Some (Inl p, w1)
              | Some (Inr (Inl err), w1) \<Rightarrow>
                  Fix_loop fixers issues
                    (results @ [\<lparr> Issue = issue, Fixed = False, Error = Some err \<rparr>]) w1
              | Some (Inr (Inr result), w1) \<Rightarrow>
                  Fix_loop fixers issues (results @ [result]) w1)))"

definition Orchestrator_Fix ::
  "(CheckType \<rightharpoonup> 'w Fixer) \<Rightarrow> Issue list \<Rightarrow> 'w
    \<Rightarrow> ((panic + error + Result list) \<times> 'w) option" where
  "Orchestrator_Fix fixers issues w =
     (case Fix_loop fixers issues [] w of
        None \<Rightarrow> None
      | Some (Inl p, w1) \<Rightarrow> Some (Inl p, w1)
      | Some (Inr results, w1) \<Rightarrow> Some (Inr (Inr results), w1))"

subsection \<open>The settings fixer\<close>

text \<open>
  \<^verbatim>\<open>f.config\<close> is a \<^verbatim>\<open>*config.SettingsConfig\<close> and \<^verbatim>\<open>f.config.Merge\<close> a
  \<^verbatim>\<open>*config.MergeConfig\<close>; reading a field through a nil pointer panics. The state is
  the client the fixer calls.
\<close>

definition fixActionsApprove ::
  "Env \<Rightarrow> SettingsConfig option \<Rightarrow> Issue \<Rightarrow> Client \<Rightarrow> ((panic + error + Result) \<times> Client) option" where
  "fixActionsApprove env config issue c =
     (case config of
        None \<Rightarrow> Some (Inl NilPointerDereference, c)
      | Some cfg \<Rightarrow>
          (case AllowActionsToApprovePRs cfg of
             None \<Rightarrow>
               Some (Inr (failedResult issue
                       (ErrorString ''allow_actions_to_approve_prs not configured'')), c)
           | Some canApprove \<Rightarrow>
               (case UpdateWorkflowPermissions env canApprove c of
                  None \<Rightarrow> None
                | Some (Some err, c1) \<Rightarrow>
                    Some (Inr (failedResult issue
                            (WrapError ''failed to update workflow permissions'' err)), c1)
                | Some (None, c1) \<Rightarrow> Some (Inr (successResult issue), c1))))"

definition fixDependabotAlerts ::
  "Env \<Rightarrow> SettingsConfig option \<Rightarrow> Issue \<Rightarrow> Client \<Rightarrow> ((panic + error + Result) \<times> Client) option" where
  "fixDependabotAlerts env config issue c =
     (case config of
        None \<Rightarrow> Some (Inl NilPointerDereference, c)
      | Some cfg \<Rightarrow>
          (case (case Dependabot cfg of None \<Rightarrow> None | Some d \<Rightarrow> Alerts d) of
             None \<Rightarrow>
               Some (Inr (failedResult issue (ErrorString ''dependabot alerts not configured'')), c)
           | Some alerts \<Rightarrow>
               (case (if alerts then EnableVulnerabilityAlerts env c
                      else DisableVulnerabilityAlerts env c) of
                  None \<Rightarrow> None
                | Some (Some err, c1) \<Rightarrow>
                    Some (Inr (failedResult issue
                            (WrapError ''failed to update vulnerability alerts'' err)), c1)
                | Some (None, c1) \<Rightarrow> Some (Inr (successResult issue), c1))))"

definition fixDependabotSecurityUpdates ::
  "Env \<Rightarrow> SettingsConfig option \<Rightarrow> Issue \<Rightarrow> Client \<Rightarrow> ((panic + error + Result) \<times> Client) option" where
  "fixDependabotSecurityUpdates env config issue c =
     (case config of
        None \<Rightarrow> Some (Inl NilPointerDereference, c)
      | Some cfg \<Rightarrow>
          (case (case Dependabot cfg of None \<Rightarrow> None | Some d \<Rightarrow> SecurityUpdates d) of
             None \<Rightarrow>
               Some (Inr (failedResult issue
                       (ErrorString ''dependabot security updates not configured'')), c)
           | Some updates \<Rightarrow>
               (case (if updates then EnableAutomatedSecurityFixes env c
                      else DisableAutomatedSecurityFixes env c) of
                  None \<Rightarrow> None
                | Some (Some err, c1) \<Rightarrow>
                    Some (Inr (failedResult issue
                            (WrapError ''failed to update automated security fixes'' err)), c1)
                | Some (None, c1) \<Rightarrow> Some (Inr (successResult issue), c1))))"

text \<open>
  \<open>config_field\<close> reads a field of \<^verbatim>\<open>f.config\<close> and \<open>config_Merge_field\<close> a field of
  \<^verbatim>\<open>f.config.Merge\<close>. \<open>settingsRequest\<close> is the second \<^verbatim>\<open>switch\<close> of
  \<^verbatim>\<open>SettingsFixer.Fix\<close>: the request it builds, \<open>Inr None\<close> in its default case, or
  the panic.
\<close>

definition config_field :: "SettingsConfig option \<Rightarrow> (SettingsConfig \<Rightarrow> 'a) \<Rightarrow> panic + 'a" where
  "config_field config field = (case config of
       None \<Rightarrow> Inl NilPointerDereference
     | Some cfg \<Rightarrow> Inr (field cfg))"

definition config_Merge_field :: "SettingsConfig option \<Rightarrow> (MergeConfig \<Rightarrow> 'a) \<Rightarrow> panic + 'a" where
  "config_Merge_field config field = (case config of
       None \<Rightarrow> Inl NilPointerDereference
     | Some cfg \<Rightarrow> (case Merge cfg of
           None \<Rightarrow> Inl NilPointerDereference
         | Some m \<Rightarrow> Inr (field m)))"

definition emptyRepoUpdateRequest :: RepoUpdateRequest where
  "emptyRepoUpdateRequest = \<lparr>
     RepoUpdateRequest_HasIssues = None, RepoUpdateRequest_HasWiki = None,
     RepoUpdateRequest_HasProjects = None, RepoUpdateRequest_HasDiscussions = None,
     RepoUpdateRequest_PullRequestCreationPolicy = None,
     RepoUpdateRequest_AllowMergeCommit = None, RepoUpdateRequest_AllowSquashMerge = None,
     RepoUpdateRequest_AllowRebaseMerge = None, RepoUpdateRequest_AllowAutoMerge = None,
     RepoUpdateRequest_DeleteBranchOnMerge = None, RepoUpdateRequest_AllowUpdateBranch = None \<rparr>"

definition settingsRequest ::
  "SettingsConfig option \<Rightarrow> string \<Rightarrow> panic + RepoUpdateRequest option" where
  "settingsRequest config setting =
     (let req = emptyRepoUpdateRequest in
      if setting = ''issues'' then
        map_sum id (\<lambda>v. Some (req\<lparr>RepoUpdateRequest_HasIssues := v\<rparr>)) (config_field config Issues)
      else if setting = ''wiki'' then
        map_sum id (\<lambda>v. Some (req\<lparr>RepoUpdateRequest_HasWiki := v\<rparr>)) (config_field config Wiki)
      else if setting = ''projects'' then
        map_sum id (\<lambda>v. Some (req\<lparr>RepoUpdateRequest_HasProjects := v\<rparr>))
          (config_field config Projects)
      else if setting = ''discussions'' then
        map_sum id (\<lambda>v. Some (req\<lparr>RepoUpdateRequest_HasDiscussions := v\<rparr>))
          (config_field config Discussions)
      else if setting = ''merge_commit'' then
        map_sum id (\<lambda>v. Some (req\<lparr>RepoUpdateRequest_AllowMergeCommit := v\<rparr>))
          (config_Merge_field config AllowMergeCommit)
      else if setting = ''squash_merge'' then
        map_sum id (\<lambda>v. Some (req\<lparr>RepoUpdateRequest_AllowSquashMerge := v\<rparr>))
          (config_Merge_field config AllowSquashMerge)
      else if setting = ''rebase_merge'' then
        map_sum id (\<lambda>v. Some (req\<lparr>RepoUpdateRequest_AllowRebaseMerge := v\<rparr>))
          (config_Merge_field config AllowRebaseMerge)
      else if setting = ''auto_merge'' then
        map_sum id (\<lambda>v. Some (req\<lparr>RepoUpdateRequest_AllowAutoMerge := v\<rparr>))
          (config_Merge_field config AllowAutoMerge)
      else if setting = ''delete_branch_on_merge'' then
        map_sum id (\<lambda>v. Some (req\<lparr>RepoUpdateRequest_DeleteBranchOnMerge := v\<rparr>))
          (config_Merge_field config DeleteBranchOnMerge)
      else if setting = ''update_branch'' then
        map_sum id (\<lambda>v. Some (req\<lparr>RepoUpdateRequest_AllowUpdateBranch := v\<rparr>))
          (config_Merge_field config AlwaysSuggestUpdatingPullRequestBranches)
      else Inr None)"

definition SettingsFixer_Fix ::
  "Env \<Rightarrow> SettingsConfig option \<Rightarrow> Issue \<Rightarrow> Client \<Rightarrow> ((panic + error + Result) \<times> Client) option" where
  "SettingsFixer_Fix env config issue c =
     (let setting = Data_get issue DataKeySetting in
      if setting = [] then
        Some (Inr (failedResult issue (ErrorString ''issue data missing setting'')), c)
      else if setting = ''actions_approve_prs'' then fixActionsApprove env config issue c
      else if setting = ''dependabot_alerts'' then fixDependabotAlerts env config issue c
      else if setting = ''dependabot_security_updates'' then
        fixDependabotSecurityUpdates env config issue c
      else
        (case settingsRequest config setting of
           Inl p \<Rightarrow> Some (Inl p, c)
         | Inr None \<Rightarrow>
             Some (Inr (failedResult issue (ErrorString (''unknown setting: '' @ setting))), c)
         | Inr (Some req) \<Rightarrow>
             (case UpdateRepository env req c of
                None \<Rightarrow> None
              | Some (Some err, c1) \<Rightarrow>
                  Some (Inr (failedResult issue (WrapError ''failed to update repository'' err)), c1)
              | Some (None, c1) \<Rightarrow> Some (Inr (successResult issue), c1))))"

section \<open>Values and projections used in the statements\<close>

text \<open>
  \<open>emptySettingsConfig\<close> is the Go literal \<^verbatim>\<open>SettingsConfig{}\<close> and \<open>settingsOnly s\<close> a
  document with nothing but the settings \<open>s\<close>. The projections \<open>Config_Settings\<close>,
  \<open>Config_Rulesets\<close>, \<open>Config_Files\<close> and \<open>Config_RequiredWorkflows\<close> read one part of
  a document that may be absent; a part below an absent parent is absent.
\<close>

definition emptySettingsConfig :: SettingsConfig where
  "emptySettingsConfig = \<lparr> Issues = None, Wiki = None, Projects = None, Discussions = None,
     AllowActionsToApprovePRs = None, PullRequestCreationPolicy = [], Merge = None,
     DefaultBranch = [], Dependabot = None \<rparr>"

definition settingsOnly :: "SettingsConfig \<Rightarrow> Config" where
  "settingsOnly s =
     \<lparr> Checks = \<lparr> Settings = Some s, Actions = None, Rulesets = None, Files = None \<rparr> \<rparr>"

definition Config_Settings :: "Config option \<Rightarrow> SettingsConfig option" where
  "Config_Settings cfg = (case cfg of None \<Rightarrow> None | Some c \<Rightarrow> Settings (Checks c))"

definition Config_Rulesets :: "Config option \<Rightarrow> RulesetConfig list option" where
  "Config_Rulesets cfg = (case cfg of None \<Rightarrow> None | Some c \<Rightarrow> Rulesets (Checks c))"

definition Config_Files :: "Config option \<Rightarrow> FileConfig list option" where
  "Config_Files cfg = (case cfg of None \<Rightarrow> None | Some c \<Rightarrow> Files (Checks c))"

definition Config_RequiredWorkflows :: "Config option \<Rightarrow> WorkflowConfig list option" where
  "Config_RequiredWorkflows cfg = (case cfg of
       None \<Rightarrow> None
     | Some c \<Rightarrow> (case Actions (Checks c) of None \<Rightarrow> None | Some a \<Rightarrow> RequiredWorkflows a))"

text \<open>
  The issue of the test \<^verbatim>\<open>TestSettingsFixer_Fix_NilMergeConfig\<close>, for a given setting.
\<close>

definition mergeSettingIssue :: "string \<Rightarrow> Issue" where
  "mergeSettingIssue setting = \<lparr> Issue_Type = CheckTypeSettings, Issue_Name = ''settings'',
     Message = ''test issue'', Fixable = True, Data = [DataKeySetting \<mapsto> setting] \<rparr>"

text \<open>Two bypass actors and a ruleset that differs from its twin in the actors only.\<close>

definition actorA :: BypassActor where
  "actorA = \<lparr> ActorID = 1, ActorType = ''Team'', BypassMode = ''always'' \<rparr>"

definition actorB :: BypassActor where
  "actorB = \<lparr> ActorID = 2, ActorType = ''Team'', BypassMode = ''always'' \<rparr>"

definition rulesetWith :: "BypassActor list \<Rightarrow> Ruleset" where
  "rulesetWith actors = \<lparr> ID = 0, Ruleset_Name = ''main'', Target = ''branch'',
     Enforcement = ''active'', Conditions = None, Rules = [], BypassActors = actors \<rparr>"

text \<open>
  \<open>next_backoff\<close> is the value the loop of \<^verbatim>\<open>doWithRetry\<close> gives \<^verbatim>\<open>backoff\<close> after a
  sleep, and \<open>backoff_ok\<close> the invariant of its two variables. \<open>sent_body\<close> is the
  encoded body with which a request of the given method reaches the transport, \<open>None\<close>
  when \<^verbatim>\<open>doWithRetry\<close> returns before calling it.
\<close>

definition next_backoff :: "int \<Rightarrow> int \<Rightarrow> int" where
  "next_backoff backoff totalWait =
     (if backoff * 2 > maxBackoffDuration - (totalWait + backoff)
      then maxBackoffDuration - (totalWait + backoff) else backoff * 2)"

definition backoff_ok :: "int \<Rightarrow> int \<Rightarrow> bool" where
  "backoff_ok backoff totalWait \<longleftrightarrow>
     0 \<le> totalWait \<and> 0 \<le> backoff \<and> totalWait + backoff \<le> maxBackoffDuration
     \<and> (totalWait < maxBackoffDuration \<longrightarrow> 0 < backoff)"

definition sent_body :: "Env \<Rightarrow> string \<Rightarrow> body option \<Rightarrow> string option" where
  "sent_body env method b =
     (if method = ''GET'' \<or> method = ''DELETE'' then Some []
      else if method = ''POST'' \<or> method = ''PATCH'' \<or> method = ''PUT'' then
        (case encodeBody env b of Inl _ \<Rightarrow> None | Inr bodyReader \<Rightarrow> Some bodyReader)
      else None)"

text \<open>
  An environment with a given transport and file system (its codecs are of no
  account in the statements that use it), and a client that has done nothing yet.
\<close>

definition sampleEnv ::
  "(nat \<Rightarrow> string \<Rightarrow> string \<Rightarrow> string \<Rightarrow> response) \<Rightarrow> (string \<Rightarrow> read_result) \<Rightarrow> Env" where
  "sampleEnv transport files = \<lparr> rest = transport, os_ReadFile = files,
     json_Encode = (\<lambda>_. Inr ''{}''), base64_DecodeString = (\<lambda>s. Inr s),
     Duration_String = (\<lambda>d. itoa d @ ''ns'') \<rparr>"

definition newClient :: "string \<Rightarrow> string \<Rightarrow> Client" where
  "newClient owner repo = \<lparr> Client_owner = owner, Client_repo = repo, cache = Map.empty,
     calls = [], slept = [] \<rparr>"

text \<open>
  \<open>handled fixers issue w r w1\<close> is what \<^verbatim>\<open>Orchestrator.Fix\<close> owes one issue that it
  meets in the state \<open>w\<close>: the result \<open>r\<close> it records and the state \<open>w1\<close> it leaves.
  An issue that is not fixable, or whose check type has no fixer, gets the failure
  built on the spot and no fixer runs, so the state stays; any other issue goes to the
  fixer of its check type, once, in the state \<open>w\<close>, and what the fixer returns is
  recorded: its result, or a failed result with its error. \<open>fixers_return\<close> says that
  every registered fixer returns on every issue in every state (it neither panics nor
  runs forever), and \<open>fixers_keep_issue\<close> that a result returned by a registered fixer
  carries the issue the fixer was given, as the results built by \<^verbatim>\<open>failedResult\<close> and
  \<^verbatim>\<open>successResult\<close> do.
\<close>

definition handled :: "(CheckType \<rightharpoonup> 'w Fixer) \<Rightarrow> Issue \<Rightarrow> 'w \<Rightarrow> Result \<Rightarrow> 'w \<Rightarrow> bool" where
  "handled fixers issue w r w1 \<longleftrightarrow>
     (\<not> Fixable issue \<longrightarrow>
        r = \<lparr> Issue = issue, Fixed = False,
              Error = Some (ErrorString ''issue is not fixable'') \<rparr> \<and> w1 = w)
   \<and> (Fixable issue \<and> fixers (Issue_Type issue) = None \<longrightarrow>
        r = \<lparr> Issue = issue, Fixed = False,
              Error = Some (ErrorString (''no fixer for check type ''
                                         @ quoted (Issue_Type issue))) \<rparr> \<and> w1 = w)
   \<and> (\<forall>fixer. Fixable issue \<and> fixers (Issue_Type issue) = Some fixer \<longrightarrow>
        (\<exists>out. fixer issue w = Some (Inr out, w1)
           \<and> r = (case out of
                     Inl err \<Rightarrow> \<lparr> Issue = issue, Fixed = False, Error = Some err \<rparr>
                   | Inr result \<Rightarrow> result)))"

definition fixers_return :: "(CheckType \<rightharpoonup> 'w Fixer) \<Rightarrow> bool" where
  "fixers_return fixers \<longleftrightarrow>
     (\<forall>t fixer issue w. fixers t = Some fixer \<longrightarrow> (\<exists>out w1. fixer issue w = Some (Inr out, w1)))"

definition fixers_keep_issue :: "(CheckType \<rightharpoonup> 'w Fixer) \<Rightarrow> bool" where
  "fixers_keep_issue fixers \<longleftrightarrow>
     (\<forall>t fixer issue w result w1.
        fixers t = Some fixer \<and> fixer issue w = Some (Inr (Inr result), w1)
        \<longrightarrow> Issue result = issue)"

text \<open>
  A fixer that counts its calls and fails on every third, a registry that holds it
  for the settings, and four issues: one that is not fixable, one whose check type has
  no fixer, and two for the fixer.
\<close>

definition countingFixer :: "nat Fixer" where
  "countingFixer issue n =
     Some (if n mod 3 = 2 then Inr (Inl (ErrorString ''third call'')) else Inr (successResult issue),
           Suc n)"

definition sampleRegistry :: "CheckType \<rightharpoonup> nat Fixer" where
  "sampleRegistry = [CheckTypeSettings \<mapsto> countingFixer]"

definition sampleIssue :: "CheckType \<Rightarrow> bool \<Rightarrow> Issue" where
  "sampleIssue t fixable = \<lparr> Issue_Type = t, Issue_Name = t, Message = ''deviation'',
     Fixable = fixable, Data = Map.empty \<rparr>"

definition sampleIssues :: "Issue list" where
  "sampleIssues = [sampleIssue CheckTypeSettings False, sampleIssue CheckTypeFiles True,
     sampleIssue CheckTypeSettings True, sampleIssue CheckTypeSettings True]"

text \<open>
  Transports. \<open>twiceLimited\<close> is rate limited on its first two requests and then
  succeeds, and \<open>alwaysFailing\<close> answers every request with a server error. The other
  two answer every request with one HTTP status, in the words of the transport the
  client is built on, whose error gives the status, the message and, in brackets, the
  URL of the request: \<open>notFound\<close> with 404, as for a resource that does not exist, and
  \<open>tooManyRequests\<close> with 429. Last, a file system without files.
\<close>

definition twiceLimited :: "nat \<Rightarrow> string \<Rightarrow> string \<Rightarrow> string \<Rightarrow> response" where
  "twiceLimited n method path b =
     (if n < 2 then Failure ''API rate limit exceeded'' else Success NoPayload)"

definition alwaysFailing :: "nat \<Rightarrow> string \<Rightarrow> string \<Rightarrow> string \<Rightarrow> response" where
  "alwaysFailing n method path b = Failure ''HTTP 500: Internal Server Error''"

definition notFound :: "nat \<Rightarrow> string \<Rightarrow> string \<Rightarrow> string \<Rightarrow> response" where
  "notFound n method path b =
     Failure (''HTTP 404: Not Found (https://api.github.com/'' @ path @ '')'')"

definition tooManyRequests :: "nat \<Rightarrow> string \<Rightarrow> string \<Rightarrow> string \<Rightarrow> response" where
  "tooManyRequests n method path b =
     Failure (''HTTP 429: Too Many Requests (https://api.github.com/'' @ path @ '')'')"

definition noFiles :: "string \<Rightarrow> read_result" where
  "noFiles p = ReadNotExist ''no such file or directory''"

text \<open>
  What a read operation that goes through the cache does, for every state \<open>c\<close> of the
  client: it returns; when the cache holds a value of its type under its key it
  returns that value and changes nothing, so it sends no request; otherwise it sends
  a request; when it succeeds the cache holds the value it returned under the key and
  is unchanged elsewhere; when it fails the cache is unchanged.
\<close>

definition reads_through_cache ::
  "(Client \<Rightarrow> ((error + 'a) \<times> Client) option) \<Rightarrow> (Client \<Rightarrow> string) \<Rightarrow> ('a \<Rightarrow> cached) \<Rightarrow> bool" where
  "reads_through_cache operation key store \<longleftrightarrow> (\<forall>c.
       (\<exists>r c'. operation c = Some (r, c'))
     \<and> (\<forall>v. cache c (key c) = Some (store v) \<longrightarrow> operation c = Some (Inr v, c))
     \<and> (\<forall>r c'. (\<forall>v. cache c (key c) \<noteq> Some (store v)) \<and> operation c = Some (r, c')
          \<longrightarrow> calls c' \<noteq> calls c)
     \<and> (\<forall>v c'. operation c = Some (Inr v, c') \<longrightarrow> cache c' = (cache c)(key c \<mapsto> store v))
     \<and> (\<forall>e c'. operation c = Some (Inl e, c') \<longrightarrow> cache c' = cache c))"

text \<open>
  An operation ignores the cache when it returns, leaves the cache as it was, and
  with any other content \<open>k\<close> of the cache returns the same result and has the same
  effects. It always calls when every run sends at least one request.
\<close>

definition ignores_cache :: "(Client \<Rightarrow> ('r \<times> Client) option) \<Rightarrow> bool" where
  "ignores_cache operation \<longleftrightarrow> (\<forall>c. \<exists>r c'.
       operation c = Some (r, c') \<and> cache c' = cache c
     \<and> (\<forall>k. operation (c\<lparr>cache := k\<rparr>) = Some (r, c'\<lparr>cache := k\<rparr>)))"

definition always_calls :: "(Client \<Rightarrow> ('r \<times> Client) option) \<Rightarrow> bool" where
  "always_calls operation \<longleftrightarrow> (\<forall>c r c'. operation c = Some (r, c') \<longrightarrow> calls c' \<noteq> calls c)"

text \<open>What \<open>decode_and_cache\<close> returns, apart from the store into the cache.\<close>

definition decoded_content :: "Env \<Rightarrow> FileContent \<Rightarrow> error + string" where
  "decoded_content env content =
     (if Encoding content \<noteq> ''base64'' then
        Inl (ErrorString (''unexpected encoding: '' @ Encoding content))
      else
        (case base64_DecodeString env (filter (\<lambda>ch. ch \<noteq> CHR 0x0A) (Content content)) of
           Inl e \<Rightarrow> Inl (WrapError ''failed to decode content'' (LibraryError e))
         | Inr decoded \<Rightarrow> Inr decoded))"

text \<open>
  A file system with one local file whose name also reads as \<^verbatim>\<open>owner/repo/path\<close>, one
  where every read is refused, a transport that answers with workflow permissions,
  and a client whose cache holds the content of one file.
\<close>

definition localRuleset :: "string \<Rightarrow> read_result" where
  "localRuleset p = (if p = ''acme/policies/ruleset.json'' then ReadOk ''{}''
                     else ReadNotExist ''no such file or directory'')"

definition unreadable :: "string \<Rightarrow> read_result" where
  "unreadable p = ReadFailed ''permission denied''"

definition samplePermissions :: WorkflowPermissions where
  "samplePermissions =
     \<lparr> DefaultWorkflowPermissions = ''read'', CanApprovePullRequestReviews = False \<rparr>"

definition permissionsTransport :: "nat \<Rightarrow> string \<Rightarrow> string \<Rightarrow> string \<Rightarrow> response" where
  "permissionsTransport n method path b = Success (WorkflowPermissionsPayload samplePermissions)"

definition licenseCached :: Client where
  "licenseCached = (newClient ''acme'' ''widget'')
     \<lparr>cache := [''file:acme/widget/LICENSE'' \<mapsto> CachedBytes ''MIT License'']\<rparr>"

text \<open>
  One optional scalar of a document that may be absent: a pointer field of the
  settings, of the merge settings, of the Dependabot settings or of the actions part
  (\<open>None\<close> when the field or a parent is nil), or a string field of the settings
  (empty when the settings are absent).
\<close>

definition Settings_ptr :: "(SettingsConfig \<Rightarrow> 'a option) \<Rightarrow> Config option \<Rightarrow> 'a option" where
  "Settings_ptr field cfg = (case Config_Settings cfg of None \<Rightarrow> None | Some s \<Rightarrow> field s)"

definition Settings_str :: "(SettingsConfig \<Rightarrow> string) \<Rightarrow> Config option \<Rightarrow> string" where
  "Settings_str field cfg = (case Config_Settings cfg of None \<Rightarrow> [] | Some s \<Rightarrow> field s)"

definition Merge_ptr :: "(MergeConfig \<Rightarrow> 'a option) \<Rightarrow> Config option \<Rightarrow> 'a option" where
  "Merge_ptr field cfg =
     Settings_ptr (\<lambda>s. case Merge s of None \<Rightarrow> None | Some m \<Rightarrow> field m) cfg"

definition Dependabot_ptr ::
  "(DependabotSettingsConfig \<Rightarrow> 'a option) \<Rightarrow> Config option \<Rightarrow> 'a option" where
  "Dependabot_ptr field cfg =
     Settings_ptr (\<lambda>s. case Dependabot s of None \<Rightarrow> None | Some d \<Rightarrow> field d) cfg"

definition Actions_ptr :: "(ActionsConfig \<Rightarrow> 'a option) \<Rightarrow> Config option \<Rightarrow> 'a option" where
  "Actions_ptr field cfg = (case cfg of
       None \<Rightarrow> None
     | Some c \<Rightarrow> (case Actions (Checks c) of None \<Rightarrow> None | Some a \<Rightarrow> field a))"

section \<open>The merge\<close>

lemma mergeBoolPtr_repo_wins: "mergeBoolPtr owner (Some v) = Some v"
  by (simp add: mergeBoolPtr_def)

lemma mergeBoolPtr_owner_kept: "mergeBoolPtr owner None = owner"
  by (simp add: mergeBoolPtr_def)

lemma mergeIntPtr_rule: "mergeIntPtr owner (Some v) = Some v" "mergeIntPtr owner None = owner"
  by (simp_all add: mergeIntPtr_def)

lemma mergeString_rule: "repo \<noteq> [] \<Longrightarrow> mergeString owner repo = repo" "mergeString owner [] = owner"
  by (simp_all add: mergeString_def)

text \<open>
  Every pointer-valued scalar of the merged document, and the string
  \<^verbatim>\<open>DefaultBranch\<close>, is the repository's value when that is set and the owner's
  otherwise, for every pair of documents, present or absent.
\<close>

lemma MergeConfigs_settings_pointers:
  "Settings_ptr Issues (MergeConfigs owner repo) =
     mergeBoolPtr (Settings_ptr Issues owner) (Settings_ptr Issues repo)"
  "Settings_ptr Wiki (MergeConfigs owner repo) =
     mergeBoolPtr (Settings_ptr Wiki owner) (Settings_ptr Wiki repo)"
  "Settings_ptr Projects (MergeConfigs owner repo) =
     mergeBoolPtr (Settings_ptr Projects owner) (Settings_ptr Projects repo)"
  "Settings_ptr Discussions (MergeConfigs owner repo) =
     mergeBoolPtr (Settings_ptr Discussions owner) (Settings_ptr Discussions repo)"
  "Settings_ptr AllowActionsToApprovePRs (MergeConfigs owner repo) =
     mergeBoolPtr (Settings_ptr AllowActionsToApprovePRs owner)
       (Settings_ptr AllowActionsToApprovePRs repo)"
  "Settings_str DefaultBranch (MergeConfigs owner repo) =
     mergeString (Settings_str DefaultBranch owner) (Settings_str DefaultBranch repo)"
  by (cases owner; cases repo;
      simp add: Settings_ptr_def Settings_str_def Config_Settings_def mergeBoolPtr_def
        mergeString_def split: option.split)+

lemma mergeMergeConfig_field:
  assumes "\<And>oc rc. field \<lparr> AllowMergeCommit = mergeBoolPtr (AllowMergeCommit oc) (AllowMergeCommit rc),
     AllowSquashMerge = mergeBoolPtr (AllowSquashMerge oc) (AllowSquashMerge rc),
     AllowRebaseMerge = mergeBoolPtr (AllowRebaseMerge oc) (AllowRebaseMerge rc),
     AllowAutoMerge = mergeBoolPtr (AllowAutoMerge oc) (AllowAutoMerge rc),
     DeleteBranchOnMerge = mergeBoolPtr (DeleteBranchOnMerge oc) (DeleteBranchOnMerge rc),
     AlwaysSuggestUpdatingPullRequestBranches =
       mergeBoolPtr (AlwaysSuggestUpdatingPullRequestBranches oc)
         (AlwaysSuggestUpdatingPullRequestBranches rc) \<rparr> = mergeBoolPtr (field oc) (field rc)"
  shows "Merge_ptr field (MergeConfigs owner repo) =
     mergeBoolPtr (Merge_ptr field owner) (Merge_ptr field repo)"
proof (cases owner; cases repo)
  fix oc rc assume both: "owner = Some oc" "repo = Some rc"
  show ?thesis
  proof (cases "Settings (Checks oc)"; cases "Settings (Checks rc)")
    fix os rs assume s: "Settings (Checks oc) = Some os" "Settings (Checks rc) = Some rs"
    show ?thesis
      by (cases "Merge os"; cases "Merge rs")
         (simp_all add: both s Merge_ptr_def Settings_ptr_def Config_Settings_def assms,
          simp_all add: mergeBoolPtr_def)
  qed (simp_all add: both Merge_ptr_def Settings_ptr_def Config_Settings_def mergeBoolPtr_def
        split: option.split)
qed (simp_all add: Merge_ptr_def Settings_ptr_def Config_Settings_def mergeBoolPtr_def
      split: option.split)

lemma MergeConfigs_merge_pointers:
  "Merge_ptr AllowMergeCommit (MergeConfigs owner repo) =
     mergeBoolPtr (Merge_ptr AllowMergeCommit owner) (Merge_ptr AllowMergeCommit repo)"
  "Merge_ptr AllowSquashMerge (MergeConfigs owner repo) =
     mergeBoolPtr (Merge_ptr AllowSquashMerge owner) (Merge_ptr AllowSquashMerge repo)"
  "Merge_ptr AllowRebaseMerge (MergeConfigs owner repo) =
     mergeBoolPtr (Merge_ptr AllowRebaseMerge owner) (Merge_ptr AllowRebaseMerge repo)"
  "Merge_ptr AllowAutoMerge (MergeConfigs owner repo) =
     mergeBoolPtr (Merge_ptr AllowAutoMerge owner) (Merge_ptr AllowAutoMerge repo)"
  "Merge_ptr DeleteBranchOnMerge (MergeConfigs owner repo) =
     mergeBoolPtr (Merge_ptr DeleteBranchOnMerge owner) (Merge_ptr DeleteBranchOnMerge repo)"
  "Merge_ptr AlwaysSuggestUpdatingPullRequestBranches (MergeConfigs owner repo) =
     mergeBoolPtr (Merge_ptr AlwaysSuggestUpdatingPullRequestBranches owner)
       (Merge_ptr AlwaysSuggestUpdatingPullRequestBranches repo)"
  by (rule mergeMergeConfig_field, simp)+

lemma MergeConfigs_dependabot_pointers:
  "Dependabot_ptr Alerts (MergeConfigs owner repo) =
     mergeBoolPtr (Dependabot_ptr Alerts owner) (Dependabot_ptr Alerts repo)"
  "Dependabot_ptr SecurityUpdates (MergeConfigs owner repo) =
     mergeBoolPtr (Dependabot_ptr SecurityUpdates owner) (Dependabot_ptr SecurityUpdates repo)"
proof -
  have gen: "Dependabot_ptr field (MergeConfigs owner repo) =
     mergeBoolPtr (Dependabot_ptr field owner) (Dependabot_ptr field repo)"
    if f: "\<And>od rd. field \<lparr> Alerts = mergeBoolPtr (Alerts od) (Alerts rd),
         SecurityUpdates = mergeBoolPtr (SecurityUpdates od) (SecurityUpdates rd) \<rparr>
       = mergeBoolPtr (field od) (field rd)" for field
  proof (cases owner; cases repo)
    fix oc rc assume both: "owner = Some oc" "repo = Some rc"
    show ?thesis
    proof (cases "Settings (Checks oc)"; cases "Settings (Checks rc)")
      fix os rs assume s: "Settings (Checks oc) = Some os" "Settings (Checks rc) = Some rs"
      show ?thesis
        by (cases "Dependabot os"; cases "Dependabot rs")
           (simp_all add: both s Dependabot_ptr_def Settings_ptr_def Config_Settings_def f,
            simp_all add: mergeBoolPtr_def)
    qed (simp_all add: both Dependabot_ptr_def Settings_ptr_def Config_Settings_def
          mergeBoolPtr_def split: option.split)
  qed (simp_all add: Dependabot_ptr_def Settings_ptr_def Config_Settings_def mergeBoolPtr_def
        split: option.split)
  show "Dependabot_ptr Alerts (MergeConfigs owner repo) =
     mergeBoolPtr (Dependabot_ptr Alerts owner) (Dependabot_ptr Alerts repo)"
    by (rule gen) simp
  show "Dependabot_ptr SecurityUpdates (MergeConfigs owner repo) =
     mergeBoolPtr (Dependabot_ptr SecurityUpdates owner) (Dependabot_ptr SecurityUpdates repo)"
    by (rule gen) simp
qed

lemma MergeConfigs_actions_pointers:
  "Actions_ptr RequirePinnedVersions (MergeConfigs owner repo) =
     mergeBoolPtr (Actions_ptr RequirePinnedVersions owner) (Actions_ptr RequirePinnedVersions repo)"
  "Actions_ptr RequireTimeout (MergeConfigs owner repo) =
     mergeBoolPtr (Actions_ptr RequireTimeout owner) (Actions_ptr RequireTimeout repo)"
  "Actions_ptr RequireMinimalPermissions (MergeConfigs owner repo) =
     mergeBoolPtr (Actions_ptr RequireMinimalPermissions owner)
       (Actions_ptr RequireMinimalPermissions repo)"
  "Actions_ptr MaxTimeoutMinutes (MergeConfigs owner repo) =
     mergeIntPtr (Actions_ptr MaxTimeoutMinutes owner) (Actions_ptr MaxTimeoutMinutes repo)"
  by (cases owner; cases repo;
      simp add: Actions_ptr_def mergeBoolPtr_def mergeIntPtr_def split: option.split)+

text \<open>
  Scenario A of the specification: the repository document sets \<^verbatim>\<open>issues: false\<close>, the
  owner document \<^verbatim>\<open>issues: true, wiki: false\<close>; the merged document has both false.
\<close>

lemma MergeConfigs_scenario_A:
  "MergeConfigs
     (Some (settingsOnly (emptySettingsConfig\<lparr>Issues := Some True, Wiki := Some False\<rparr>)))
     (Some (settingsOnly (emptySettingsConfig\<lparr>Issues := Some False\<rparr>)))
   = Some (settingsOnly (emptySettingsConfig\<lparr>Issues := Some False, Wiki := Some False\<rparr>))"
  by (simp add: settingsOnly_def emptySettingsConfig_def mergeBoolPtr_def mergeString_def
      mergeRulesets_def mergeFiles_def)

text \<open>
  C1, the code at the failing input. The claim gives every optional scalar of the
  merged document the repository's value when that is set and the owner's otherwise,
  strings included. With settings on both sides \<^verbatim>\<open>mergeSettingsConfig\<close> leaves
  \<^verbatim>\<open>PullRequestCreationPolicy\<close> out of the struct it builds: the owner document sets
  only \<^verbatim>\<open>issues: true\<close>, the repository document only
  \<^verbatim>\<open>pull_request_creation_policy: "collaborators"\<close>, and the merged document has the
  empty policy, not \<^verbatim>\<open>"collaborators"\<close>.
\<close>

theorem MergeConfigs_drops_PullRequestCreationPolicy:
  "MergeConfigs
     (Some (settingsOnly (emptySettingsConfig\<lparr>Issues := Some True\<rparr>)))
     (Some (settingsOnly (emptySettingsConfig\<lparr>PullRequestCreationPolicy := ''collaborators''\<rparr>)))
   = Some (settingsOnly (emptySettingsConfig\<lparr>Issues := Some True, PullRequestCreationPolicy := []\<rparr>))"
  by (simp add: settingsOnly_def emptySettingsConfig_def mergeBoolPtr_def mergeString_def
      mergeRulesets_def mergeFiles_def)

text \<open>
  C2. For every pair of documents, each array of the merged document (rulesets, files,
  required workflows) is the repository's array when that is non-nil, whatever its
  length, and the owner's array otherwise: never a concatenation or an element-wise
  merge.
\<close>

theorem MergeConfigs_arrays_atomic:
  "Config_Rulesets (MergeConfigs owner repo) =
     (if Config_Rulesets repo \<noteq> None then Config_Rulesets repo else Config_Rulesets owner)
   \<and> Config_Files (MergeConfigs owner repo) =
     (if Config_Files repo \<noteq> None then Config_Files repo else Config_Files owner)
   \<and> Config_RequiredWorkflows (MergeConfigs owner repo) =
     (if Config_RequiredWorkflows repo \<noteq> None then Config_RequiredWorkflows repo
      else Config_RequiredWorkflows owner)"
proof (intro conjI)
  show "Config_Rulesets (MergeConfigs owner repo) =
     (if Config_Rulesets repo \<noteq> None then Config_Rulesets repo else Config_Rulesets owner)"
    by (cases owner; cases repo) (simp_all add: Config_Rulesets_def mergeRulesets_def)
  show "Config_Files (MergeConfigs owner repo) =
     (if Config_Files repo \<noteq> None then Config_Files repo else Config_Files owner)"
    by (cases owner; cases repo) (simp_all add: Config_Files_def mergeFiles_def)
  show "Config_RequiredWorkflows (MergeConfigs owner repo) =
     (if Config_RequiredWorkflows repo \<noteq> None then Config_RequiredWorkflows repo
      else Config_RequiredWorkflows owner)"
  proof (cases owner; cases repo)
    fix oc rc assume "owner = Some oc" "repo = Some rc"
    then show ?thesis
      by (cases "Actions (Checks oc)"; cases "Actions (Checks rc)")
         (simp_all add: Config_RequiredWorkflows_def)
  qed (simp_all add: Config_RequiredWorkflows_def)
qed

section \<open>The settings fixer\<close>

text \<open>
  C9, the code at the failing input. The claim, with the test
  \<^verbatim>\<open>TestSettingsFixer_Fix_NilMergeConfig\<close>, wants a failed result (not fixed, with an
  error) for a merge setting when \<^verbatim>\<open>Merge\<close> is nil. \<^verbatim>\<open>SettingsFixer.Fix\<close> reads
  \<^verbatim>\<open>f.config.Merge.AllowMergeCommit\<close> and its five siblings without a nil check: on the
  configuration and the issues of that test, each of the six settings ends in a nil
  pointer dereference, before any request is sent.
\<close>

theorem SettingsFixer_Fix_nil_Merge_panics:
  "SettingsFixer_Fix env (Some emptySettingsConfig) (mergeSettingIssue ''merge_commit'') c
     = Some (Inl NilPointerDereference, c)
   \<and> SettingsFixer_Fix env (Some emptySettingsConfig) (mergeSettingIssue ''squash_merge'') c
     = Some (Inl NilPointerDereference, c)
   \<and> SettingsFixer_Fix env (Some emptySettingsConfig) (mergeSettingIssue ''rebase_merge'') c
     = Some (Inl NilPointerDereference, c)
   \<and> SettingsFixer_Fix env (Some emptySettingsConfig) (mergeSettingIssue ''auto_merge'') c
     = Some (Inl NilPointerDereference, c)
   \<and> SettingsFixer_Fix env (Some emptySettingsConfig) (mergeSettingIssue ''delete_branch_on_merge'') c
     = Some (Inl NilPointerDereference, c)
   \<and> SettingsFixer_Fix env (Some emptySettingsConfig) (mergeSettingIssue ''update_branch'') c
     = Some (Inl NilPointerDereference, c)"
  by (simp add: SettingsFixer_Fix_def mergeSettingIssue_def Data_get_def settingsRequest_def
      config_Merge_field_def emptySettingsConfig_def)

section \<open>Comparing rulesets\<close>

text \<open>
  C10. There are two lists of bypass actors of equal length that differ as multisets,
  the actual one repeating an actor and the expected one holding an actor the actual
  one lacks, which \<^verbatim>\<open>bypassActorsMatch\<close> accepts; two rulesets that differ in nothing
  else then match for \<^verbatim>\<open>rulesetsMatch\<close>. The comparison checks the lengths and that
  every actual actor is among the expected ones, and nothing in the other direction.
\<close>

theorem bypassActorsMatch_accepts_different_multisets:
  "\<exists>actual expected x.
     length actual = length expected
     \<and> mset actual \<noteq> mset expected
     \<and> \<not> distinct actual
     \<and> x \<in> set expected \<and> x \<notin> set actual
     \<and> bypassActorsMatch actual expected
     \<and> (\<forall>json_Marshal. rulesetsMatch json_Marshal (rulesetWith actual) (rulesetWith expected))"
proof (intro exI conjI)
  show "length [actorA, actorA] = length [actorA, actorB]" by simp
  show "actorB \<in> set [actorA, actorB]" by simp
  show ne: "actorB \<notin> set [actorA, actorA]" by (simp add: actorA_def actorB_def)
  show "\<not> distinct [actorA, actorA]" by simp
  show "mset [actorA, actorA] \<noteq> mset [actorA, actorB]"
    using ne by (metis set_mset_mset list.set_intros(1,2))
  show m: "bypassActorsMatch [actorA, actorA] [actorA, actorB]"
    by (simp add: bypassActorsMatch_def actorKey_def actorA_def actorB_def itoa_def)
  show "\<forall>json_Marshal. rulesetsMatch json_Marshal (rulesetWith [actorA, actorA])
          (rulesetWith [actorA, actorB])"
    using m by (simp add: rulesetsMatch_def rulesetWith_def conditionsMatch_def rulesMatch_def
        rulesByType_def)
qed

section \<open>The retry loop\<close>

lemma loop_attempt_error:
  "attempt env method path b c = Inl e \<Longrightarrow>
   doWithRetry_loop env method path b backoff totalWait c = Some (Inl e, c)"
  by (subst doWithRetry_loop.simps) simp

lemma loop_success:
  "attempt env method path b c = Inr (Success result, c1) \<Longrightarrow>
   doWithRetry_loop env method path b backoff totalWait c = Some (Inr result, c1)"
  by (subst doWithRetry_loop.simps) simp

lemma loop_other_error:
  "attempt env method path b c = Inr (Failure err, c1) \<Longrightarrow> \<not> isRateLimitError (Some err) \<Longrightarrow>
   doWithRetry_loop env method path b backoff totalWait c = Some (Inl (TransportError err), c1)"
  by (subst doWithRetry_loop.simps) simp

lemma loop_give_up:
  "attempt env method path b c = Inr (Failure err, c1) \<Longrightarrow> isRateLimitError (Some err) \<Longrightarrow>
   maxBackoffDuration \<le> totalWait \<Longrightarrow>
   doWithRetry_loop env method path b backoff totalWait c =
     Some (Inl (RateLimitExceeded totalWait (TransportError err)), c1)"
  by (subst doWithRetry_loop.simps) simp

lemma loop_retry:
  "attempt env method path b c = Inr (Failure err, c1) \<Longrightarrow> isRateLimitError (Some err) \<Longrightarrow>
   totalWait < maxBackoffDuration \<Longrightarrow>
   doWithRetry_loop env method path b backoff totalWait c =
     doWithRetry_loop env method path b (next_backoff backoff totalWait) (totalWait + backoff)
       (c1\<lparr>slept := slept c1 @ [backoff]\<rparr>)"
  by (subst doWithRetry_loop.simps) (simp add: next_backoff_def Let_def)

lemma backoff_ok_initial: "backoff_ok initialBackoff 0"
  by (simp add: backoff_ok_def initialBackoff_def maxBackoffDuration_def)

lemma backoff_ok_next:
  "backoff_ok backoff totalWait \<Longrightarrow> totalWait < maxBackoffDuration \<Longrightarrow>
   backoff_ok (next_backoff backoff totalWait) (totalWait + backoff)"
  by (auto simp: backoff_ok_def next_backoff_def)

lemma encodeBody_cases:
  "(\<exists>m. encodeBody env b = Inl (WrapError ''failed to encode request body'' (LibraryError m)))
   \<or> (\<exists>bd. encodeBody env b = Inr bd)"
  by (simp add: encodeBody_def split: option.split sum.split)

lemma attempt_cases:
  "(\<exists>e. (\<forall>c. attempt env method path b c = Inl e) \<and> (\<forall>d e'. e \<noteq> RateLimitExceeded d e')) \<or>
   (\<exists>bd. \<forall>c. attempt env method path b c = Inr (send env method path bd c))"
proof (cases "method = ''GET''")
  case True
  then have "\<forall>c. attempt env method path b c = Inr (send env method path [] c)"
    by (simp add: attempt_def)
  then show ?thesis by blast
next
  case notGet: False
  show ?thesis
  proof (cases "method = ''POST'' \<or> method = ''PATCH'' \<or> method = ''PUT''")
    case True
    from encodeBody_cases [of env b] show ?thesis
    proof
      assume "\<exists>m. encodeBody env b = Inl (WrapError ''failed to encode request body'' (LibraryError m))"
      then obtain m where "encodeBody env b = Inl (WrapError ''failed to encode request body'' (LibraryError m))" ..
      with notGet True
      have "\<forall>c. attempt env method path b c = Inl (WrapError ''failed to encode request body'' (LibraryError m))"
        by (simp add: attempt_def)
      then show ?thesis by blast
    next
      assume "\<exists>bd. encodeBody env b = Inr bd"
      then obtain bd where "encodeBody env b = Inr bd" ..
      with notGet True have "\<forall>c. attempt env method path b c = Inr (send env method path bd c)"
        by (simp add: attempt_def)
      then show ?thesis by blast
    qed
  next
    case notBody: False
    show ?thesis
    proof (cases "method = ''DELETE''")
      case True
      with notGet notBody have "\<forall>c. attempt env method path b c = Inr (send env method path [] c)"
        by (simp add: attempt_def)
      then show ?thesis by blast
    next
      case False
      with notGet notBody
      have "\<forall>c. attempt env method path b c = Inl (ErrorString (''unsupported method: '' @ method))"
        by (simp add: attempt_def)
      then show ?thesis by blast
    qed
  qed
qed

lemma send_effect:
  "send env method path bd c =
     (rest env (length (calls c)) method path bd, c\<lparr>calls := calls c @ [(method, path, bd)]\<rparr>)"
  by (simp add: send_def)

lemma loop_effect:
  "backoff_ok backoff totalWait \<Longrightarrow>
   \<exists>r cs ss. (\<forall>c. length (calls c) = n \<longrightarrow>
       doWithRetry_loop env method path b backoff totalWait c =
         Some (r, c\<lparr>calls := calls c @ cs, slept := slept c @ ss\<rparr>))
     \<and> totalWait + sum_list ss \<le> maxBackoffDuration
     \<and> (\<forall>x \<in> set ss. 0 < x)
     \<and> (cs = [] \<longrightarrow> (\<exists>e. r = Inl e \<and> (\<forall>c. attempt env method path b c = Inl e)))
     \<and> (\<forall>d e. r = Inl (RateLimitExceeded d e) \<longrightarrow> d = maxBackoffDuration)"
proof (induction "nat (maxBackoffDuration - totalWait)" arbitrary: backoff totalWait n rule: less_induct)
  case less
  from attempt_cases [of env "method" path b] show ?case
  proof
    assume "\<exists>e. (\<forall>c. attempt env method path b c = Inl e) \<and> (\<forall>d e'. e \<noteq> RateLimitExceeded d e')"
    then obtain e where e: "\<And>c. attempt env method path b c = Inl e"
      and ne: "\<And>d e'. e \<noteq> RateLimitExceeded d e'" by blast
    have "\<forall>c. length (calls c) = n \<longrightarrow>
       doWithRetry_loop env method path b backoff totalWait c =
         Some (Inl e, c\<lparr>calls := calls c @ [], slept := slept c @ []\<rparr>)"
      by (simp add: loop_attempt_error [OF e])
    moreover have "totalWait + sum_list [] \<le> maxBackoffDuration"
      using less.prems by (simp add: backoff_ok_def)
    ultimately show ?thesis using e ne by (intro exI [of _ "Inl e"] exI [of _ "[]"]) simp
  next
    assume "\<exists>bd. \<forall>c. attempt env method path b c = Inr (send env method path bd c)"
    then obtain bd where bd: "\<And>c. attempt env method path b c = Inr (send env method path bd c)"
      by blast
    let ?k = "(method, path, bd)"
    have att: "\<And>c. length (calls c) = n \<Longrightarrow>
       attempt env method path b c = Inr (rest env n method path bd, c\<lparr>calls := calls c @ [?k]\<rparr>)"
      by (simp add: bd send_def)
    have tw: "totalWait \<le> maxBackoffDuration" "0 \<le> totalWait"
      using less.prems by (auto simp: backoff_ok_def)
    show ?thesis
    proof (cases "rest env n method path bd")
      case (Success result)
      have "\<forall>c. length (calls c) = n \<longrightarrow>
         doWithRetry_loop env method path b backoff totalWait c =
           Some (Inr result, c\<lparr>calls := calls c @ [?k], slept := slept c @ []\<rparr>)"
        using att Success by (simp add: loop_success)
      then show ?thesis using tw
        by (intro exI [of _ "Inr result"] exI [of _ "[?k]"] exI [of _ "[]"]) simp
    next
      case (Failure err)
      show ?thesis
      proof (cases "isRateLimitError (Some err)")
        case False
        have "\<forall>c. length (calls c) = n \<longrightarrow>
           doWithRetry_loop env method path b backoff totalWait c =
             Some (Inl (TransportError err), c\<lparr>calls := calls c @ [?k], slept := slept c @ []\<rparr>)"
          using att Failure False by (simp add: loop_other_error)
        then show ?thesis using tw
          by (intro exI [of _ "Inl (TransportError err)"] exI [of _ "[?k]"] exI [of _ "[]"]) simp
      next
        case True
        show ?thesis
        proof (cases "totalWait < maxBackoffDuration")
          case False
          with tw have eq: "totalWait = maxBackoffDuration" by simp
          have "\<forall>c. length (calls c) = n \<longrightarrow>
             doWithRetry_loop env method path b backoff totalWait c =
               Some (Inl (RateLimitExceeded totalWait (TransportError err)),
                     c\<lparr>calls := calls c @ [?k], slept := slept c @ []\<rparr>)"
            using att Failure True False by (simp add: loop_give_up)
          then show ?thesis using tw eq
            by (intro exI [of _ "Inl (RateLimitExceeded totalWait (TransportError err))"]
                  exI [of _ "[?k]"] exI [of _ "[]"]) simp
        next
          case lt: True
          with less.prems have pos: "0 < backoff" by (simp add: backoff_ok_def)
          have smaller: "nat (maxBackoffDuration - (totalWait + backoff)) < nat (maxBackoffDuration - totalWait)"
            using lt pos by simp
          note ih = less.hyps [OF smaller backoff_ok_next [OF less.prems lt], of "Suc n"]
          from ih obtain r where "\<exists>cs ss. (\<forall>c. length (calls c) = Suc n \<longrightarrow>
               doWithRetry_loop env method path b (next_backoff backoff totalWait) (totalWait + backoff) c =
                 Some (r, c\<lparr>calls := calls c @ cs, slept := slept c @ ss\<rparr>))
             \<and> totalWait + backoff + sum_list ss \<le> maxBackoffDuration
             \<and> (\<forall>x \<in> set ss. 0 < x)
             \<and> (cs = [] \<longrightarrow> (\<exists>e. r = Inl e \<and> (\<forall>c. attempt env method path b c = Inl e)))
             \<and> (\<forall>d e. r = Inl (RateLimitExceeded d e) \<longrightarrow> d = maxBackoffDuration)" ..
          then obtain cs where "\<exists>ss. (\<forall>c. length (calls c) = Suc n \<longrightarrow>
               doWithRetry_loop env method path b (next_backoff backoff totalWait) (totalWait + backoff) c =
                 Some (r, c\<lparr>calls := calls c @ cs, slept := slept c @ ss\<rparr>))
             \<and> totalWait + backoff + sum_list ss \<le> maxBackoffDuration
             \<and> (\<forall>x \<in> set ss. 0 < x)
             \<and> (cs = [] \<longrightarrow> (\<exists>e. r = Inl e \<and> (\<forall>c. attempt env method path b c = Inl e)))
             \<and> (\<forall>d e. r = Inl (RateLimitExceeded d e) \<longrightarrow> d = maxBackoffDuration)" ..
          then obtain ss where all: "(\<forall>c. length (calls c) = Suc n \<longrightarrow>
               doWithRetry_loop env method path b (next_backoff backoff totalWait) (totalWait + backoff) c =
                 Some (r, c\<lparr>calls := calls c @ cs, slept := slept c @ ss\<rparr>))
             \<and> totalWait + backoff + sum_list ss \<le> maxBackoffDuration
             \<and> (\<forall>x \<in> set ss. 0 < x)
             \<and> (cs = [] \<longrightarrow> (\<exists>e. r = Inl e \<and> (\<forall>c. attempt env method path b c = Inl e)))
             \<and> (\<forall>d e. r = Inl (RateLimitExceeded d e) \<longrightarrow> d = maxBackoffDuration)" ..
          from all have run: "\<And>c. length (calls c) = Suc n \<Longrightarrow>
               doWithRetry_loop env method path b (next_backoff backoff totalWait) (totalWait + backoff) c =
                 Some (r, c\<lparr>calls := calls c @ cs, slept := slept c @ ss\<rparr>)" by simp
          from all have sum: "totalWait + backoff + sum_list ss \<le> maxBackoffDuration" by simp
          from all have ssp: "\<forall>x \<in> set ss. 0 < x" by simp
          from all have rl: "\<forall>d e. r = Inl (RateLimitExceeded d e) \<longrightarrow> d = maxBackoffDuration" by simp
          have "\<forall>c. length (calls c) = n \<longrightarrow>
             doWithRetry_loop env method path b backoff totalWait c =
               Some (r, c\<lparr>calls := calls c @ (?k # cs), slept := slept c @ (backoff # ss)\<rparr>)"
          proof (intro allI impI)
            fix c :: Client
            assume len: "length (calls c) = n"
            have "doWithRetry_loop env method path b backoff totalWait c =
               doWithRetry_loop env method path b (next_backoff backoff totalWait) (totalWait + backoff)
                 (c\<lparr>calls := calls c @ [?k], slept := slept c @ [backoff]\<rparr>)"
              using loop_retry [OF _ True lt, of env "method" path b c _ backoff] att [OF len] Failure
              by simp
            also have "\<dots> = Some (r, c\<lparr>calls := calls c @ (?k # cs), slept := slept c @ (backoff # ss)\<rparr>)"
              using run [of "c\<lparr>calls := calls c @ [?k], slept := slept c @ [backoff]\<rparr>"] len
              by simp
            finally show "doWithRetry_loop env method path b backoff totalWait c =
               Some (r, c\<lparr>calls := calls c @ (?k # cs), slept := slept c @ (backoff # ss)\<rparr>)" .
          qed
          then show ?thesis using sum ssp rl pos
            by (intro exI [of _ r] exI [of _ "?k # cs"] exI [of _ "backoff # ss"]) (simp add: add.assoc)
        qed
      qed
    qed
  qed
qed


lemma sent_body_attempt:
  "sent_body env method b = Some bd \<Longrightarrow>
   attempt env method path b c =
     Inr (rest env (length (calls c)) method path bd, c\<lparr>calls := calls c @ [(method, path, bd)]\<rparr>)"
  by (auto simp: sent_body_def attempt_def send_def split: if_splits sum.splits)

lemma doWithRetry_effect:
  "\<exists>r cs ss. (\<forall>c. length (calls c) = n \<longrightarrow>
       doWithRetry env method path b c =
         Some (r, c\<lparr>calls := calls c @ cs, slept := slept c @ ss\<rparr>))
     \<and> sum_list ss \<le> maxBackoffDuration
     \<and> (\<forall>x \<in> set ss. 0 < x)
     \<and> (cs = [] \<longrightarrow> (\<exists>e. r = Inl e \<and> (\<forall>c. attempt env method path b c = Inl e)))
     \<and> (\<forall>d e. r = Inl (RateLimitExceeded d e) \<longrightarrow> d = maxBackoffDuration)"
  using loop_effect [OF backoff_ok_initial, of n env "method" path b]
  by (simp add: doWithRetry_def)

lemma loop_retry_rest:
  assumes "sent_body env method b = Some bd"
      and "rest env (length (calls c)) method path bd = Failure e"
      and "isRateLimitError (Some e)"
      and "totalWait < maxBackoffDuration"
  shows "doWithRetry_loop env method path b backoff totalWait c =
     doWithRetry_loop env method path b (next_backoff backoff totalWait) (totalWait + backoff)
       (c\<lparr>calls := calls c @ [(method, path, bd)], slept := slept c @ [backoff]\<rparr>)"
  using loop_retry [OF _ assms(3,4), of env "method" path b c _ backoff]
    sent_body_attempt [OF assms(1), of path c] assms(2)
  by simp

lemma loop_success_rest:
  assumes "sent_body env method b = Some bd"
      and "rest env (length (calls c)) method path bd = Success result"
  shows "doWithRetry_loop env method path b backoff totalWait c =
     Some (Inr result, c\<lparr>calls := calls c @ [(method, path, bd)]\<rparr>)"
  using loop_success [of env "method" path b c result _ backoff totalWait]
    sent_body_attempt [OF assms(1), of path c] assms(2)
  by simp

lemma loop_other_error_rest:
  assumes "sent_body env method b = Some bd"
      and "rest env (length (calls c)) method path bd = Failure e"
      and "\<not> isRateLimitError (Some e)"
  shows "doWithRetry_loop env method path b backoff totalWait c =
     Some (Inl (TransportError e), c\<lparr>calls := calls c @ [(method, path, bd)]\<rparr>)"
  using loop_other_error [OF _ assms(3), of env "method" path b c _ backoff totalWait]
    sent_body_attempt [OF assms(1), of path c] assms(2)
  by simp

lemma loop_give_up_rest:
  assumes "sent_body env method b = Some bd"
      and "rest env (length (calls c)) method path bd = Failure e"
      and "isRateLimitError (Some e)"
      and "maxBackoffDuration \<le> totalWait"
  shows "doWithRetry_loop env method path b backoff totalWait c =
     Some (Inl (RateLimitExceeded totalWait (TransportError e)),
           c\<lparr>calls := calls c @ [(method, path, bd)]\<rparr>)"
  using loop_give_up [OF _ assms(3,4), of env "method" path b c _ backoff]
    sent_body_attempt [OF assms(1), of path c] assms(2)
  by simp

text \<open>
  C4. When the transport answers the first two attempts of a request with a rate-limit
  error and the third with success, \<^verbatim>\<open>doWithRetry\<close> returns success after three
  requests and exactly two sleeps, the first of \<^verbatim>\<open>initialBackoff\<close> (one second) and
  the second of twice that.
\<close>

theorem doWithRetry_two_rate_limits_then_success:
  assumes "sent_body env method b = Some bd"
      and "rest env (length (calls c)) method path bd = Failure e1"
      and "isRateLimitError (Some e1)"
      and "rest env (length (calls c) + 1) method path bd = Failure e2"
      and "isRateLimitError (Some e2)"
      and "rest env (length (calls c) + 2) method path bd = Success result"
  shows "doWithRetry env method path b c =
     Some (Inr result,
           c\<lparr>calls := calls c @ [(method, path, bd), (method, path, bd), (method, path, bd)],
             slept := slept c @ [initialBackoff, 2 * initialBackoff]\<rparr>)
     \<and> initialBackoff = 1000000000"
proof -
  let ?k = "(method, path, bd)"
  let ?c1 = "c\<lparr>calls := calls c @ [?k], slept := slept c @ [initialBackoff]\<rparr>"
  let ?c2 = "?c1\<lparr>calls := calls ?c1 @ [?k], slept := slept ?c1 @ [2 * initialBackoff]\<rparr>"
  have "doWithRetry env method path b c =
        doWithRetry_loop env method path b (next_backoff initialBackoff 0) (0 + initialBackoff) ?c1"
    unfolding doWithRetry_def
    by (rule loop_retry_rest [OF assms(1,2,3)]) (simp add: maxBackoffDuration_def)
  also have "\<dots> = doWithRetry_loop env method path b (2 * initialBackoff) initialBackoff ?c1"
    by (simp add: next_backoff_def initialBackoff_def maxBackoffDuration_def)
  also have "\<dots> = doWithRetry_loop env method path b
        (next_backoff (2 * initialBackoff) initialBackoff) (initialBackoff + 2 * initialBackoff) ?c2"
    by (rule loop_retry_rest [OF assms(1) _ assms(5)])
       (use assms(4) in \<open>simp_all add: initialBackoff_def maxBackoffDuration_def\<close>)
  also have "\<dots> = Some (Inr result, ?c2\<lparr>calls := calls ?c2 @ [?k]\<rparr>)"
    by (rule loop_success_rest [OF assms(1)]) (use assms(6) in simp)
  finally show ?thesis by (simp add: initialBackoff_def)
qed


theorem doWithRetry_two_rate_limits_then_success_witness:
  "sent_body (sampleEnv twiceLimited noFiles) ''GET'' None = Some []
   \<and> rest (sampleEnv twiceLimited noFiles) (length (calls (newClient ''acme'' ''widget'')))
        ''GET'' ''repos/acme/widget'' [] = Failure ''API rate limit exceeded''
   \<and> isRateLimitError (Some ''API rate limit exceeded'')
   \<and> rest (sampleEnv twiceLimited noFiles) (length (calls (newClient ''acme'' ''widget'')) + 1)
        ''GET'' ''repos/acme/widget'' [] = Failure ''API rate limit exceeded''
   \<and> rest (sampleEnv twiceLimited noFiles) (length (calls (newClient ''acme'' ''widget'')) + 2)
        ''GET'' ''repos/acme/widget'' [] = Success NoPayload
   \<and> doWithRetry (sampleEnv twiceLimited noFiles) ''GET'' ''repos/acme/widget'' None
        (newClient ''acme'' ''widget'') =
      Some (Inr NoPayload,
            (newClient ''acme'' ''widget'')
              \<lparr>calls := [(''GET'', ''repos/acme/widget'', []), (''GET'', ''repos/acme/widget'', []),
                         (''GET'', ''repos/acme/widget'', [])],
                slept := [1000000000, 2000000000]\<rparr>)"
proof -
  have h: "sent_body (sampleEnv twiceLimited noFiles) ''GET'' None = Some []"
    "rest (sampleEnv twiceLimited noFiles) (length (calls (newClient ''acme'' ''widget'')))
        ''GET'' ''repos/acme/widget'' [] = Failure ''API rate limit exceeded''"
    "isRateLimitError (Some ''API rate limit exceeded'')"
    "rest (sampleEnv twiceLimited noFiles) (length (calls (newClient ''acme'' ''widget'')) + 1)
        ''GET'' ''repos/acme/widget'' [] = Failure ''API rate limit exceeded''"
    "rest (sampleEnv twiceLimited noFiles) (length (calls (newClient ''acme'' ''widget'')) + 2)
        ''GET'' ''repos/acme/widget'' [] = Success NoPayload"
    by (simp_all add: sent_body_def sampleEnv_def twiceLimited_def newClient_def
        isRateLimitError_def)
  from doWithRetry_two_rate_limits_then_success [OF h(1) h(2) h(3) h(4) h(3) h(5)]
  show ?thesis using h by (simp add: newClient_def initialBackoff_def)
qed

text \<open>
  What the loop does apart from telling the errors from one another. Whatever the
  transport answers, \<^verbatim>\<open>doWithRetry\<close> returns, and the sleeps of one call add up to at
  most \<^verbatim>\<open>maxBackoffDuration\<close>, one minute. An error in which \<^verbatim>\<open>isRateLimitError\<close>
  finds none of its words is returned at once, after that one request and without a
  sleep. Under a transport all of whose answers \<^verbatim>\<open>isRateLimitError\<close> accepts, the call
  sends seven requests, sleeps 1, 2, 4, 8, 16 and 29 seconds, and fails with the error
  \<^verbatim>\<open>rate limit exceeded, waited\<close> that carries the minute and wraps the last answer.
\<close>

lemma doWithRetry_returns_within_ceiling:
  "\<exists>r cs ss. doWithRetry env method path b c =
        Some (r, c\<lparr>calls := calls c @ cs, slept := slept c @ ss\<rparr>)
     \<and> sum_list ss \<le> maxBackoffDuration
     \<and> maxBackoffDuration = 60000000000"
proof -
  from doWithRetry_effect [of "length (calls c)" env "method" path b]
  obtain r cs ss where "doWithRetry env method path b c =
         Some (r, c\<lparr>calls := calls c @ cs, slept := slept c @ ss\<rparr>)"
    and "sum_list ss \<le> maxBackoffDuration"
    by blast
  then show ?thesis by (auto simp: maxBackoffDuration_def)
qed

lemma doWithRetry_unrecognised_error:
  assumes "sent_body env method b = Some bd"
      and "rest env (length (calls c)) method path bd = Failure e"
      and "\<not> isRateLimitError (Some e)"
  shows "doWithRetry env method path b c =
     Some (Inl (TransportError e), c\<lparr>calls := calls c @ [(method, path, bd)]\<rparr>)"
  unfolding doWithRetry_def using assms by (rule loop_other_error_rest)

lemma doWithRetry_persistent_rate_limit:
  assumes sb: "sent_body env method b = Some bd"
      and pers: "\<forall>n. \<exists>e. rest env n method path bd = Failure e \<and> isRateLimitError (Some e)"
  shows "\<exists>e. rest env (length (calls c) + 6) method path bd = Failure e
          \<and> doWithRetry env method path b c =
              Some (Inl (RateLimitExceeded maxBackoffDuration (TransportError e)),
                    c\<lparr>calls := calls c @ replicate 7 (method, path, bd),
                      slept := slept c @ [1000000000, 2000000000, 4000000000, 8000000000,
                                          16000000000, 29000000000]\<rparr>)
          \<and> error_message (Duration_String env)
                (RateLimitExceeded maxBackoffDuration (TransportError e))
              = ''rate limit exceeded, waited '' @ Duration_String env maxBackoffDuration
                @ '': '' @ e"
proof -
  let ?k = "(method, path, bd)"
  have retry: "doWithRetry_loop env method path b backoff totalWait c0 =
      doWithRetry_loop env method path b (next_backoff backoff totalWait) (totalWait + backoff)
        (c0\<lparr>calls := calls c0 @ [?k], slept := slept c0 @ [backoff]\<rparr>)"
    if "totalWait < maxBackoffDuration" for backoff totalWait c0
  proof -
    from pers obtain e where "rest env (length (calls c0)) method path bd = Failure e"
      and "isRateLimitError (Some e)" by blast
    then show ?thesis using loop_retry_rest [OF sb _ _ that] by blast
  qed
  let ?c1 = "c\<lparr>calls := calls c @ [?k], slept := slept c @ [1000000000]\<rparr>"
  let ?c2 = "?c1\<lparr>calls := calls ?c1 @ [?k], slept := slept ?c1 @ [2000000000]\<rparr>"
  let ?c3 = "?c2\<lparr>calls := calls ?c2 @ [?k], slept := slept ?c2 @ [4000000000]\<rparr>"
  let ?c4 = "?c3\<lparr>calls := calls ?c3 @ [?k], slept := slept ?c3 @ [8000000000]\<rparr>"
  let ?c5 = "?c4\<lparr>calls := calls ?c4 @ [?k], slept := slept ?c4 @ [16000000000]\<rparr>"
  let ?c6 = "?c5\<lparr>calls := calls ?c5 @ [?k], slept := slept ?c5 @ [29000000000]\<rparr>"
  from pers obtain e where last: "rest env (length (calls ?c6)) method path bd = Failure e"
    and rl: "isRateLimitError (Some e)" by blast
  have "doWithRetry env method path b c =
        doWithRetry_loop env method path b 1000000000 0 c"
    by (simp add: doWithRetry_def initialBackoff_def)
  also have "\<dots> = doWithRetry_loop env method path b 2000000000 1000000000 ?c1"
    using retry [of 0 1000000000 c] by (simp add: next_backoff_def maxBackoffDuration_def)
  also have "\<dots> = doWithRetry_loop env method path b 4000000000 3000000000 ?c2"
    using retry [of 1000000000 2000000000 ?c1]
    by (simp add: next_backoff_def maxBackoffDuration_def)
  also have "\<dots> = doWithRetry_loop env method path b 8000000000 7000000000 ?c3"
    using retry [of 3000000000 4000000000 ?c2]
    by (simp add: next_backoff_def maxBackoffDuration_def)
  also have "\<dots> = doWithRetry_loop env method path b 16000000000 15000000000 ?c4"
    using retry [of 7000000000 8000000000 ?c3]
    by (simp add: next_backoff_def maxBackoffDuration_def)
  also have "\<dots> = doWithRetry_loop env method path b 29000000000 31000000000 ?c5"
    using retry [of 15000000000 16000000000 ?c4]
    by (simp add: next_backoff_def maxBackoffDuration_def)
  also have "\<dots> = doWithRetry_loop env method path b 0 60000000000 ?c6"
    using retry [of 31000000000 29000000000 ?c5]
    by (simp add: next_backoff_def maxBackoffDuration_def)
  also have "\<dots> = Some (Inl (RateLimitExceeded 60000000000 (TransportError e)),
                        ?c6\<lparr>calls := calls ?c6 @ [?k]\<rparr>)"
    by (rule loop_give_up_rest [OF sb last rl]) (simp add: maxBackoffDuration_def)
  finally have "doWithRetry env method path b c =
      Some (Inl (RateLimitExceeded maxBackoffDuration (TransportError e)),
            c\<lparr>calls := calls c @ replicate 7 ?k,
              slept := slept c @ [1000000000, 2000000000, 4000000000, 8000000000,
                                  16000000000, 29000000000]\<rparr>)"
    by (simp add: maxBackoffDuration_def numeral_eq_Suc)
  moreover from last have "rest env (length (calls c) + 6) method path bd = Failure e"
    by (simp add: numeral_eq_Suc)
  ultimately show ?thesis by (intro exI [of _ e]) simp
qed

text \<open>
  C5, the code at the failing input. The claim has every error that is not a
  rate-limit error returned at once, and the loop says the same of itself
  (\<^verbatim>\<open>// Check if this is a rate limit error\<close>). But \<^verbatim>\<open>isRateLimitError\<close> looks for
  \<^verbatim>\<open>403\<close> anywhere in the text of the error, and that text ends with the URL of the
  request. A request for the ruleset 1403 of a repository that has no such ruleset is
  answered with 404, which is no rate limit; its text holds \<^verbatim>\<open>403\<close> in the number of
  the ruleset, so \<^verbatim>\<open>doWithRetry\<close> sends the request seven times, sleeps 1, 2, 4, 8, 16
  and 29 seconds between them, a minute in all, and returns the error
  \<^verbatim>\<open>rate limit exceeded\<close> with the minute waited. \<^verbatim>\<open>IsNotFound\<close>, of the same file,
  takes the very same error for a 404. The same answer to a request for the ruleset
  1404 is returned at once.
\<close>

theorem doWithRetry_retries_not_found:
  "doWithRetry (sampleEnv notFound noFiles) ''GET'' ''repos/acme/widget/rulesets/1403'' None c
     = Some (Inl (RateLimitExceeded 60000000000
                    (TransportError
                       ''HTTP 404: Not Found (https://api.github.com/repos/acme/widget/rulesets/1403)'')),
             c\<lparr>calls := calls c @ replicate 7 (''GET'', ''repos/acme/widget/rulesets/1403'', []),
               slept := slept c @ [1000000000, 2000000000, 4000000000, 8000000000,
                                   16000000000, 29000000000]\<rparr>)
   \<and> IsNotFound (sampleEnv notFound noFiles)
         (Some (TransportError
                  ''HTTP 404: Not Found (https://api.github.com/repos/acme/widget/rulesets/1403)''))
   \<and> doWithRetry (sampleEnv notFound noFiles) ''GET'' ''repos/acme/widget/rulesets/1404'' None c
     = Some (Inl (TransportError
                    ''HTTP 404: Not Found (https://api.github.com/repos/acme/widget/rulesets/1404)''),
             c\<lparr>calls := calls c @ [(''GET'', ''repos/acme/widget/rulesets/1404'', [])]\<rparr>)"
proof (intro conjI)
  let ?E = "sampleEnv notFound noFiles"
  let ?e = "''HTTP 404: Not Found (https://api.github.com/repos/acme/widget/rulesets/1403)''"
  have sb: "sent_body ?E ''GET'' None = Some []"
    by (simp add: sent_body_def)
  have every: "rest ?E n ''GET'' ''repos/acme/widget/rulesets/1403'' [] = Failure ?e" for n
    by (simp add: sampleEnv_def notFound_def)
  have rl: "isRateLimitError (Some ?e)"
    by (simp add: isRateLimitError_def)
  from doWithRetry_persistent_rate_limit [OF sb, of "''repos/acme/widget/rulesets/1403''" c]
    every rl
  show "doWithRetry ?E ''GET'' ''repos/acme/widget/rulesets/1403'' None c
     = Some (Inl (RateLimitExceeded 60000000000 (TransportError ?e)),
             c\<lparr>calls := calls c @ replicate 7 (''GET'', ''repos/acme/widget/rulesets/1403'', []),
               slept := slept c @ [1000000000, 2000000000, 4000000000, 8000000000,
                                   16000000000, 29000000000]\<rparr>)"
    by (simp add: maxBackoffDuration_def)
  show "IsNotFound ?E (Some (TransportError ?e))"
    by (simp add: IsNotFound_def)
  show "doWithRetry ?E ''GET'' ''repos/acme/widget/rulesets/1404'' None c
     = Some (Inl (TransportError
                    ''HTTP 404: Not Found (https://api.github.com/repos/acme/widget/rulesets/1404)''),
             c\<lparr>calls := calls c @ [(''GET'', ''repos/acme/widget/rulesets/1404'', [])]\<rparr>)"
    by (rule doWithRetry_unrecognised_error)
       (simp_all add: sent_body_def sampleEnv_def notFound_def isRateLimitError_def)
qed

text \<open>
  The words \<^verbatim>\<open>isRateLimitError\<close> looks for are \<^verbatim>\<open>rate limit\<close> and \<^verbatim>\<open>403\<close> alone. An
  answer with the status 429 whose text has neither is returned at once, like any
  other error.
\<close>

lemma doWithRetry_tooManyRequests:
  "doWithRetry (sampleEnv tooManyRequests noFiles) ''GET'' ''repos/acme/widget'' None c
   = Some (Inl (TransportError
                  ''HTTP 429: Too Many Requests (https://api.github.com/repos/acme/widget)''),
           c\<lparr>calls := calls c @ [(''GET'', ''repos/acme/widget'', [])]\<rparr>)"
  by (rule doWithRetry_unrecognised_error)
     (simp_all add: sent_body_def sampleEnv_def tooManyRequests_def isRateLimitError_def)

section \<open>The cache\<close>

lemma attempt_GET: "attempt env ''GET'' path b c = Inr (send env ''GET'' path [] c)"
  by (simp add: attempt_def)

lemma doWithRetry_run:
  "\<exists>r cs ss. (\<forall>c. length (calls c) = n \<longrightarrow>
       doWithRetry env method path b c =
         Some (r, c\<lparr>calls := calls c @ cs, slept := slept c @ ss\<rparr>))
     \<and> (method = ''GET'' \<longrightarrow> cs \<noteq> [])"
proof -
  from doWithRetry_effect [of n env "method" path b]
  obtain r cs ss where run: "\<forall>c. length (calls c) = n \<longrightarrow>
       doWithRetry env method path b c =
         Some (r, c\<lparr>calls := calls c @ cs, slept := slept c @ ss\<rparr>)"
    and empty: "cs = [] \<longrightarrow> (\<exists>e. r = Inl e \<and> (\<forall>c. attempt env method path b c = Inl e))"
    by (elim exE conjE)
  have "cs \<noteq> []" if "method = ''GET''"
  proof
    assume "cs = []"
    with empty obtain e where "\<forall>c. attempt env method path b c = Inl e" by (elim impE exE conjE)
    with that show False by (simp add: attempt_GET)
  qed
  with run show ?thesis by (intro exI [of _ r] exI [of _ cs] exI [of _ ss]) simp
qed

lemma ignores_cacheI:
  assumes "\<And>c. operation c =
     map_option (\<lambda>(r, c1). (f r, c1))
       (doWithRetry env method (path (Client_owner c) (Client_repo c)) b c)"
  shows "ignores_cache operation"
  unfolding ignores_cache_def
proof
  fix c :: Client
  from doWithRetry_run [of "length (calls c)" env "method" "path (Client_owner c) (Client_repo c)" b]
  obtain r cs ss where run: "\<forall>c0. length (calls c0) = length (calls c) \<longrightarrow>
       doWithRetry env method (path (Client_owner c) (Client_repo c)) b c0 =
         Some (r, c0\<lparr>calls := calls c0 @ cs, slept := slept c0 @ ss\<rparr>)"
    by (elim exE conjE)
  let ?c' = "c\<lparr>calls := calls c @ cs, slept := slept c @ ss\<rparr>"
  have a: "operation c = Some (f r, ?c')"
    by (simp add: assms run)
  have b: "operation (c\<lparr>cache := k\<rparr>) = Some (f r, ?c'\<lparr>cache := k\<rparr>)" for k
    using run [rule_format, of "c\<lparr>cache := k\<rparr>"] by (simp add: assms)
  show "\<exists>r c'. operation c = Some (r, c') \<and> cache c' = cache c
     \<and> (\<forall>k. operation (c\<lparr>cache := k\<rparr>) = Some (r, c'\<lparr>cache := k\<rparr>))"
    using a b by (intro exI [of _ "f r"] exI [of _ ?c']) simp
qed

lemma always_callsI:
  assumes "\<And>c. operation c =
     map_option (\<lambda>(r, c1). (f r, c1))
       (doWithRetry env ''GET'' (path (Client_owner c) (Client_repo c)) b c)"
  shows "always_calls operation"
  unfolding always_calls_def
proof (intro allI impI)
  fix c :: Client and r' c'
  assume res: "operation c = Some (r', c')"
  from doWithRetry_run [of "length (calls c)" env "''GET''" "path (Client_owner c) (Client_repo c)" b]
  obtain r cs ss where run: "\<forall>c0. length (calls c0) = length (calls c) \<longrightarrow>
       doWithRetry env ''GET'' (path (Client_owner c) (Client_repo c)) b c0 =
         Some (r, c0\<lparr>calls := calls c0 @ cs, slept := slept c0 @ ss\<rparr>)"
    and ne: "''GET'' = ''GET'' \<longrightarrow> cs \<noteq> []"
    by (elim exE conjE)
  from res have "c' = c\<lparr>calls := calls c @ cs, slept := slept c @ ss\<rparr>"
    by (simp add: assms run)
  with ne show "calls c' \<noteq> calls c" by simp
qed

lemma reads_through_cacheI:
  fixes operation :: "Client \<Rightarrow> ((error + 'a) \<times> Client) option"
  assumes hit: "\<And>c v. cache c (key c) = Some (store v) \<Longrightarrow> operation c = Some (Inr v, c)"
      and miss: "\<And>c. (\<forall>v. cache c (key c) \<noteq> Some (store v)) \<Longrightarrow> operation c =
         (case doWithRetry env ''GET'' (path c) None c of
            None \<Rightarrow> None
          | Some (Inl err, c1) \<Rightarrow> Some (Inl err, c1)
          | Some (Inr result, c1) \<Rightarrow>
              (case finish c result of
                 Inl e \<Rightarrow> Some (Inl e, c1)
               | Inr v \<Rightarrow> Some (Inr v, setCache (key c) (store v) c1)))"
  shows "reads_through_cache operation key store"
  unfolding reads_through_cache_def
proof
  fix c :: Client
  show "(\<exists>r c'. operation c = Some (r, c'))
     \<and> (\<forall>v. cache c (key c) = Some (store v) \<longrightarrow> operation c = Some (Inr v, c))
     \<and> (\<forall>r c'. (\<forall>v. cache c (key c) \<noteq> Some (store v)) \<and> operation c = Some (r, c')
          \<longrightarrow> calls c' \<noteq> calls c)
     \<and> (\<forall>v c'. operation c = Some (Inr v, c') \<longrightarrow> cache c' = (cache c)(key c \<mapsto> store v))
     \<and> (\<forall>e c'. operation c = Some (Inl e, c') \<longrightarrow> cache c' = cache c)"
  proof (cases "\<exists>v. cache c (key c) = Some (store v)")
    case True
    then obtain v where v: "cache c (key c) = Some (store v)" ..
    have op: "operation c = Some (Inr v, c)" by (rule hit [OF v])
    have "(cache c)(key c \<mapsto> store v) = cache c" using v by (rule fun_upd_idem)
    with op v show ?thesis by (auto simp: hit)
  next
    case False
    then have nohit: "\<forall>v. cache c (key c) \<noteq> Some (store v)" by simp
    from doWithRetry_run [of "length (calls c)" env "''GET''" "path c" None]
    obtain r cs ss where run0: "\<forall>c0. length (calls c0) = length (calls c) \<longrightarrow>
         doWithRetry env ''GET'' (path c) None c0 =
           Some (r, c0\<lparr>calls := calls c0 @ cs, slept := slept c0 @ ss\<rparr>)"
      and ne0: "''GET'' = ''GET'' \<longrightarrow> cs \<noteq> []"
      by (elim exE conjE)
    from run0 have run: "doWithRetry env ''GET'' (path c) None c =
         Some (r, c\<lparr>calls := calls c @ cs, slept := slept c @ ss\<rparr>)" by simp
    from ne0 have ne: "cs \<noteq> []" by simp
    let ?c1 = "c\<lparr>calls := calls c @ cs, slept := slept c @ ss\<rparr>"
    show ?thesis
    proof (cases r)
      case (Inl err)
      then have "operation c = Some (Inl err, ?c1)" by (simp add: miss [OF nohit] run)
      with nohit ne show ?thesis by simp
    next
      case (Inr result)
      show ?thesis
      proof (cases "finish c result")
        case (Inl e)
        with Inr have "operation c = Some (Inl e, ?c1)" by (simp add: miss [OF nohit] run)
        with nohit ne show ?thesis by simp
      next
        case fin: (Inr v)
        with Inr have "operation c = Some (Inr v, setCache (key c) (store v) ?c1)"
          by (simp add: miss [OF nohit] run)
        with nohit ne show ?thesis by (simp add: setCache_def)
      qed
    qed
  qed
qed


lemma GetRepository_reads_through_cache:
  "reads_through_cache (GetRepository env)
     (\<lambda>c. ''repo:'' @ Client_owner c @ ''/'' @ Client_repo c) CachedRepository"
proof (rule reads_through_cacheI [where env = env
      and path = "\<lambda>c. ''repos/'' @ Client_owner c @ ''/'' @ Client_repo c"
      and finish = "\<lambda>c result. if Archived (decode_Repository result)
          then Inl (ErrorString (''repository '' @ Client_owner c @ ''/'' @ Client_repo c
                                 @ '' is archived''))
          else Inr (decode_Repository result)"])
  fix c :: Client and v
  assume "cache c (''repo:'' @ Client_owner c @ ''/'' @ Client_repo c) = Some (CachedRepository v)"
  then show "GetRepository env c = Some (Inr v, c)"
    by (simp add: GetRepository_def getFromCache_def)
next
  fix c :: Client
  assume "\<forall>v. cache c (''repo:'' @ Client_owner c @ ''/'' @ Client_repo c) \<noteq> Some (CachedRepository v)"
  then show "GetRepository env c =
     (case doWithRetry env ''GET'' (''repos/'' @ Client_owner c @ ''/'' @ Client_repo c) None c of
        None \<Rightarrow> None
      | Some (Inl err, c1) \<Rightarrow> Some (Inl err, c1)
      | Some (Inr result, c1) \<Rightarrow>
          (case if Archived (decode_Repository result)
                then Inl (ErrorString (''repository '' @ Client_owner c @ ''/'' @ Client_repo c
                                       @ '' is archived''))
                else Inr (decode_Repository result) of
             Inl e \<Rightarrow> Some (Inl e, c1)
           | Inr v \<Rightarrow> Some (Inr v,
               setCache (''repo:'' @ Client_owner c @ ''/'' @ Client_repo c) (CachedRepository v) c1)))"
    by (simp add: GetRepository_def getFromCache_def Let_def
        split: option.split cached.split sum.split prod.split)
qed

lemma GetRulesets_reads_through_cache:
  "reads_through_cache (GetRulesets env)
     (\<lambda>c. ''rulesets:'' @ Client_owner c @ ''/'' @ Client_repo c) CachedRulesets"
proof (rule reads_through_cacheI [where env = env
      and path = "\<lambda>c. ''repos/'' @ Client_owner c @ ''/'' @ Client_repo c @ ''/rulesets''"
      and finish = "\<lambda>c result. Inr (decode_Rulesets result)"])
  fix c :: Client and v
  assume "cache c (''rulesets:'' @ Client_owner c @ ''/'' @ Client_repo c) = Some (CachedRulesets v)"
  then show "GetRulesets env c = Some (Inr v, c)"
    by (simp add: GetRulesets_def getFromCache_def)
next
  fix c :: Client
  assume "\<forall>v. cache c (''rulesets:'' @ Client_owner c @ ''/'' @ Client_repo c) \<noteq> Some (CachedRulesets v)"
  then show "GetRulesets env c =
     (case doWithRetry env ''GET''
             (''repos/'' @ Client_owner c @ ''/'' @ Client_repo c @ ''/rulesets'') None c of
        None \<Rightarrow> None
      | Some (Inl err, c1) \<Rightarrow> Some (Inl err, c1)
      | Some (Inr result, c1) \<Rightarrow>
          (case Inr (decode_Rulesets result) of
             Inl e \<Rightarrow> Some (Inl e, c1)
           | Inr v \<Rightarrow> Some (Inr v,
               setCache (''rulesets:'' @ Client_owner c @ ''/'' @ Client_repo c) (CachedRulesets v) c1)))"
    by (simp add: GetRulesets_def getFromCache_def Let_def
        split: option.split cached.split sum.split prod.split)
qed

lemma GetRuleset_reads_through_cache:
  "reads_through_cache (GetRuleset env rulesetID)
     (\<lambda>c. ''ruleset:'' @ Client_owner c @ ''/'' @ Client_repo c @ ''/'' @ itoa rulesetID)
     CachedRuleset"
proof (rule reads_through_cacheI [where env = env
      and path = "\<lambda>c. ''repos/'' @ Client_owner c @ ''/'' @ Client_repo c @ ''/rulesets/''
                      @ itoa rulesetID"
      and finish = "\<lambda>c result. Inr (decode_Ruleset result)"])
  fix c :: Client and v
  assume "cache c (''ruleset:'' @ Client_owner c @ ''/'' @ Client_repo c @ ''/'' @ itoa rulesetID)
          = Some (CachedRuleset v)"
  then show "GetRuleset env rulesetID c = Some (Inr v, c)"
    by (simp add: GetRuleset_def getFromCache_def)
next
  fix c :: Client
  assume "\<forall>v. cache c (''ruleset:'' @ Client_owner c @ ''/'' @ Client_repo c @ ''/'' @ itoa rulesetID)
          \<noteq> Some (CachedRuleset v)"
  then show "GetRuleset env rulesetID c =
     (case doWithRetry env ''GET''
             (''repos/'' @ Client_owner c @ ''/'' @ Client_repo c @ ''/rulesets/'' @ itoa rulesetID)
             None c of
        None \<Rightarrow> None
      | Some (Inl err, c1) \<Rightarrow> Some (Inl err, c1)
      | Some (Inr result, c1) \<Rightarrow>
          (case Inr (decode_Ruleset result) of
             Inl e \<Rightarrow> Some (Inl e, c1)
           | Inr v \<Rightarrow> Some (Inr v,
               setCache (''ruleset:'' @ Client_owner c @ ''/'' @ Client_repo c @ ''/''
                         @ itoa rulesetID) (CachedRuleset v) c1)))"
    by (simp add: GetRuleset_def getFromCache_def Let_def
        split: option.split cached.split sum.split prod.split)
qed

lemma decode_and_cache_decoded_content:
  "decode_and_cache env cacheKey content c1 =
     (case decoded_content env content of
        Inl e \<Rightarrow> (Inl e, c1)
      | Inr v \<Rightarrow> (Inr v, setCache cacheKey (CachedBytes v) c1))"
  by (simp add: decode_and_cache_def decoded_content_def split: sum.split)

lemma GetFileContent_reads_through_cache:
  "reads_through_cache (GetFileContent env filePath)
     (\<lambda>c. ''file:'' @ Client_owner c @ ''/'' @ Client_repo c @ ''/'' @ filePath) CachedBytes"
proof (rule reads_through_cacheI [where env = env
      and path = "\<lambda>c. ''repos/'' @ Client_owner c @ ''/'' @ Client_repo c @ ''/contents/''
                      @ filePath"
      and finish = "\<lambda>c result. decoded_content env (decode_FileContent result)"])
  fix c :: Client and v
  assume "cache c (''file:'' @ Client_owner c @ ''/'' @ Client_repo c @ ''/'' @ filePath)
          = Some (CachedBytes v)"
  then show "GetFileContent env filePath c = Some (Inr v, c)"
    by (simp add: GetFileContent_def getFromCache_def)
next
  fix c :: Client
  assume "\<forall>v. cache c (''file:'' @ Client_owner c @ ''/'' @ Client_repo c @ ''/'' @ filePath)
          \<noteq> Some (CachedBytes v)"
  then show "GetFileContent env filePath c =
     (case doWithRetry env ''GET''
             (''repos/'' @ Client_owner c @ ''/'' @ Client_repo c @ ''/contents/'' @ filePath)
             None c of
        None \<Rightarrow> None
      | Some (Inl err, c1) \<Rightarrow> Some (Inl err, c1)
      | Some (Inr result, c1) \<Rightarrow>
          (case decoded_content env (decode_FileContent result) of
             Inl e \<Rightarrow> Some (Inl e, c1)
           | Inr v \<Rightarrow> Some (Inr v,
               setCache (''file:'' @ Client_owner c @ ''/'' @ Client_repo c @ ''/'' @ filePath)
                 (CachedBytes v) c1)))"
    by (simp add: GetFileContent_def getFromCache_def Let_def decode_and_cache_decoded_content
        split: option.split cached.split sum.split prod.split)
qed

lemma GetRemoteFileContent_reads_through_cache:
  "reads_through_cache (GetRemoteFileContent env owner repo filePath)
     (\<lambda>c. ''remote-file:'' @ owner @ ''/'' @ repo @ ''/'' @ filePath) CachedBytes"
proof (rule reads_through_cacheI [where env = env
      and path = "\<lambda>c. ''repos/'' @ owner @ ''/'' @ repo @ ''/contents/'' @ filePath"
      and finish = "\<lambda>c result. decoded_content env (decode_FileContent result)"])
  fix c :: Client and v
  assume "cache c (''remote-file:'' @ owner @ ''/'' @ repo @ ''/'' @ filePath) = Some (CachedBytes v)"
  then show "GetRemoteFileContent env owner repo filePath c = Some (Inr v, c)"
    by (simp add: GetRemoteFileContent_def getFromCache_def)
next
  fix c :: Client
  assume "\<forall>v. cache c (''remote-file:'' @ owner @ ''/'' @ repo @ ''/'' @ filePath)
          \<noteq> Some (CachedBytes v)"
  then show "GetRemoteFileContent env owner repo filePath c =
     (case doWithRetry env ''GET'' (''repos/'' @ owner @ ''/'' @ repo @ ''/contents/'' @ filePath)
             None c of
        None \<Rightarrow> None
      | Some (Inl err, c1) \<Rightarrow> Some (Inl err, c1)
      | Some (Inr result, c1) \<Rightarrow>
          (case decoded_content env (decode_FileContent result) of
             Inl e \<Rightarrow> Some (Inl e, c1)
           | Inr v \<Rightarrow> Some (Inr v,
               setCache (''remote-file:'' @ owner @ ''/'' @ repo @ ''/'' @ filePath)
                 (CachedBytes v) c1)))"
    by (simp add: GetRemoteFileContent_def getFromCache_def Let_def
        decode_and_cache_decoded_content
        split: option.split cached.split sum.split prod.split)
qed

lemma GetWorkflowPermissions_as_request:
  "GetWorkflowPermissions env c =
     map_option (\<lambda>(r, c1). (map_sum id decode_WorkflowPermissions r, c1))
       (doWithRetry env ''GET''
          (''repos/'' @ Client_owner c @ ''/'' @ Client_repo c @ ''/actions/permissions/workflow'')
          None c)"
  by (simp add: GetWorkflowPermissions_def split: option.split sum.split prod.split)

lemma GetVulnerabilityAlertsEnabled_as_request:
  "GetVulnerabilityAlertsEnabled env c =
     map_option (\<lambda>(r, c1).
         (case r of Inl err \<Rightarrow> if IsNotFound env (Some err) then Inr False else Inl err
                  | Inr _ \<Rightarrow> Inr True, c1))
       (doWithRetry env ''GET''
          (''repos/'' @ Client_owner c @ ''/'' @ Client_repo c @ ''/vulnerability-alerts'') None c)"
  by (simp add: GetVulnerabilityAlertsEnabled_def split: option.split sum.split prod.split)

lemma GetAutomatedSecurityFixes_as_request:
  "GetAutomatedSecurityFixes env c =
     map_option (\<lambda>(r, c1). (map_sum id decode_AutomatedSecurityFixes r, c1))
       (doWithRetry env ''GET''
          (''repos/'' @ Client_owner c @ ''/'' @ Client_repo c @ ''/automated-security-fixes'')
          None c)"
  by (simp add: GetAutomatedSecurityFixes_def split: option.split sum.split prod.split)

lemma CreateRuleset_as_request:
  "CreateRuleset env req c =
     map_option (\<lambda>(r, c1). (map_sum id decode_Ruleset r, c1))
       (doWithRetry env ''POST'' (''repos/'' @ Client_owner c @ ''/'' @ Client_repo c @ ''/rulesets'')
          (Some (RulesetBody req)) c)"
  by (simp add: CreateRuleset_def split: option.split sum.split prod.split)

lemma uncached_reads:
  "ignores_cache (GetWorkflowPermissions env) \<and> always_calls (GetWorkflowPermissions env)
   \<and> ignores_cache (GetVulnerabilityAlertsEnabled env)
   \<and> always_calls (GetVulnerabilityAlertsEnabled env)
   \<and> ignores_cache (GetAutomatedSecurityFixes env)
   \<and> always_calls (GetAutomatedSecurityFixes env)"
proof (intro conjI)
  show "ignores_cache (GetWorkflowPermissions env)"
    by (rule ignores_cacheI [where path = "\<lambda>ow re. ''repos/'' @ ow @ ''/'' @ re
          @ ''/actions/permissions/workflow''"]) (rule GetWorkflowPermissions_as_request)
  show "always_calls (GetWorkflowPermissions env)"
    by (rule always_callsI [where path = "\<lambda>ow re. ''repos/'' @ ow @ ''/'' @ re
          @ ''/actions/permissions/workflow''"]) (rule GetWorkflowPermissions_as_request)
  show "ignores_cache (GetVulnerabilityAlertsEnabled env)"
    by (rule ignores_cacheI [where path = "\<lambda>ow re. ''repos/'' @ ow @ ''/'' @ re
          @ ''/vulnerability-alerts''"]) (rule GetVulnerabilityAlertsEnabled_as_request)
  show "always_calls (GetVulnerabilityAlertsEnabled env)"
    by (rule always_callsI [where path = "\<lambda>ow re. ''repos/'' @ ow @ ''/'' @ re
          @ ''/vulnerability-alerts''"]) (rule GetVulnerabilityAlertsEnabled_as_request)
  show "ignores_cache (GetAutomatedSecurityFixes env)"
    by (rule ignores_cacheI [where path = "\<lambda>ow re. ''repos/'' @ ow @ ''/'' @ re
          @ ''/automated-security-fixes''"]) (rule GetAutomatedSecurityFixes_as_request)
  show "always_calls (GetAutomatedSecurityFixes env)"
    by (rule always_callsI [where path = "\<lambda>ow re. ''repos/'' @ ow @ ''/'' @ re
          @ ''/automated-security-fixes''"]) (rule GetAutomatedSecurityFixes_as_request)
qed

lemma writes_ignore_cache:
  "ignores_cache (EnableVulnerabilityAlerts env)
   \<and> ignores_cache (DisableVulnerabilityAlerts env)
   \<and> ignores_cache (EnableAutomatedSecurityFixes env)
   \<and> ignores_cache (DisableAutomatedSecurityFixes env)
   \<and> ignores_cache (UpdateRepository env req)
   \<and> ignores_cache (UpdateWorkflowPermissions env canApprove)
   \<and> ignores_cache (CreateRuleset env rulesetReq)
   \<and> ignores_cache (UpdateRuleset env rulesetID rulesetReq)"
proof (intro conjI)
  show "ignores_cache (EnableVulnerabilityAlerts env)"
    by (rule ignores_cacheI [where path = "\<lambda>ow re. ''repos/'' @ ow @ ''/'' @ re
          @ ''/vulnerability-alerts''"]) (simp add: EnableVulnerabilityAlerts_def)
  show "ignores_cache (DisableVulnerabilityAlerts env)"
    by (rule ignores_cacheI [where path = "\<lambda>ow re. ''repos/'' @ ow @ ''/'' @ re
          @ ''/vulnerability-alerts''"]) (simp add: DisableVulnerabilityAlerts_def)
  show "ignores_cache (EnableAutomatedSecurityFixes env)"
    by (rule ignores_cacheI [where path = "\<lambda>ow re. ''repos/'' @ ow @ ''/'' @ re
          @ ''/automated-security-fixes''"]) (simp add: EnableAutomatedSecurityFixes_def)
  show "ignores_cache (DisableAutomatedSecurityFixes env)"
    by (rule ignores_cacheI [where path = "\<lambda>ow re. ''repos/'' @ ow @ ''/'' @ re
          @ ''/automated-security-fixes''"]) (simp add: DisableAutomatedSecurityFixes_def)
  show "ignores_cache (UpdateRepository env req)"
    by (rule ignores_cacheI [where path = "\<lambda>ow re. ''repos/'' @ ow @ ''/'' @ re"])
       (simp add: UpdateRepository_def)
  show "ignores_cache (UpdateWorkflowPermissions env canApprove)"
    by (rule ignores_cacheI [where path = "\<lambda>ow re. ''repos/'' @ ow @ ''/'' @ re
          @ ''/actions/permissions/workflow''"]) (simp add: UpdateWorkflowPermissions_def)
  show "ignores_cache (CreateRuleset env rulesetReq)"
    by (rule ignores_cacheI [where path = "\<lambda>ow re. ''repos/'' @ ow @ ''/'' @ re @ ''/rulesets''"])
       (rule CreateRuleset_as_request)
  show "ignores_cache (UpdateRuleset env rulesetID rulesetReq)"
    by (rule ignores_cacheI [where path = "\<lambda>ow re. ''repos/'' @ ow @ ''/'' @ re @ ''/rulesets/''
          @ itoa rulesetID"]) (simp add: UpdateRuleset_def)
qed

text \<open>
  C3, amended. Five read operations go through the cache, each under its own key:
  \<^verbatim>\<open>GetRepository\<close>, \<^verbatim>\<open>GetRulesets\<close>, \<^verbatim>\<open>GetRuleset\<close>, \<^verbatim>\<open>GetFileContent\<close> and
  \<^verbatim>\<open>GetRemoteFileContent\<close>. The three others, \<^verbatim>\<open>GetWorkflowPermissions\<close>,
  \<^verbatim>\<open>GetVulnerabilityAlertsEnabled\<close> and \<^verbatim>\<open>GetAutomatedSecurityFixes\<close>, ignore the
  cache and send a request on every call. The eight write operations ignore the
  cache: they neither read it nor change it.
\<close>

theorem client_cache_discipline:
  "reads_through_cache (GetRepository env)
     (\<lambda>c. ''repo:'' @ Client_owner c @ ''/'' @ Client_repo c) CachedRepository
   \<and> reads_through_cache (GetRulesets env)
     (\<lambda>c. ''rulesets:'' @ Client_owner c @ ''/'' @ Client_repo c) CachedRulesets
   \<and> reads_through_cache (GetRuleset env rulesetID)
     (\<lambda>c. ''ruleset:'' @ Client_owner c @ ''/'' @ Client_repo c @ ''/'' @ itoa rulesetID)
     CachedRuleset
   \<and> reads_through_cache (GetFileContent env filePath)
     (\<lambda>c. ''file:'' @ Client_owner c @ ''/'' @ Client_repo c @ ''/'' @ filePath) CachedBytes
   \<and> reads_through_cache (GetRemoteFileContent env owner repo filePath)
     (\<lambda>c. ''remote-file:'' @ owner @ ''/'' @ repo @ ''/'' @ filePath) CachedBytes
   \<and> ignores_cache (GetWorkflowPermissions env) \<and> always_calls (GetWorkflowPermissions env)
   \<and> ignores_cache (GetVulnerabilityAlertsEnabled env)
   \<and> always_calls (GetVulnerabilityAlertsEnabled env)
   \<and> ignores_cache (GetAutomatedSecurityFixes env)
   \<and> always_calls (GetAutomatedSecurityFixes env)
   \<and> ignores_cache (EnableVulnerabilityAlerts env)
   \<and> ignores_cache (DisableVulnerabilityAlerts env)
   \<and> ignores_cache (EnableAutomatedSecurityFixes env)
   \<and> ignores_cache (DisableAutomatedSecurityFixes env)
   \<and> ignores_cache (UpdateRepository env req)
   \<and> ignores_cache (UpdateWorkflowPermissions env canApprove)
   \<and> ignores_cache (CreateRuleset env rulesetReq)
   \<and> ignores_cache (UpdateRuleset env rulesetID rulesetReq)"
  using GetRepository_reads_through_cache [of env] GetRulesets_reads_through_cache [of env]
    GetRuleset_reads_through_cache [of env rulesetID]
    GetFileContent_reads_through_cache [of env filePath]
    GetRemoteFileContent_reads_through_cache [of env owner repo filePath]
    uncached_reads [of env] writes_ignore_cache [of env req canApprove rulesetReq rulesetID]
  by (intro conjI) (elim conjE, assumption)+


theorem client_cache_discipline_witness:
  "cache licenseCached (''file:'' @ Client_owner licenseCached @ ''/'' @ Client_repo licenseCached
      @ ''/'' @ ''LICENSE'') = Some (CachedBytes ''MIT License'')
   \<and> GetFileContent (sampleEnv alwaysFailing noFiles) ''LICENSE'' licenseCached
       = Some (Inr ''MIT License'', licenseCached)
   \<and> (\<forall>v. cache licenseCached (''repo:'' @ Client_owner licenseCached @ ''/''
              @ Client_repo licenseCached) \<noteq> Some (CachedRepository v))
   \<and> (\<exists>r c'. GetRepository (sampleEnv alwaysFailing noFiles) licenseCached = Some (r, c')
         \<and> calls c' \<noteq> calls licenseCached)
   \<and> (\<exists>r c'. UpdateRepository (sampleEnv alwaysFailing noFiles) emptyRepoUpdateRequest
                 licenseCached = Some (r, c')
         \<and> cache c' = cache licenseCached
         \<and> UpdateRepository (sampleEnv alwaysFailing noFiles) emptyRepoUpdateRequest
              (licenseCached\<lparr>cache := cache (newClient ''acme'' ''widget'')\<rparr>)
            = Some (r, c'\<lparr>cache := cache (newClient ''acme'' ''widget'')\<rparr>))
   \<and> (\<exists>r c'. GetWorkflowPermissions (sampleEnv alwaysFailing noFiles) licenseCached = Some (r, c')
         \<and> cache c' = cache licenseCached \<and> calls c' \<noteq> calls licenseCached)"
proof -
  let ?E = "sampleEnv alwaysFailing noFiles"
  note all = client_cache_discipline [where env = ?E and filePath = "''LICENSE''"
      and req = emptyRepoUpdateRequest]
  have hit: "cache licenseCached (''file:'' @ Client_owner licenseCached @ ''/''
      @ Client_repo licenseCached @ ''/'' @ ''LICENSE'') = Some (CachedBytes ''MIT License'')"
    by (simp add: licenseCached_def newClient_def)
  have miss: "\<forall>v. cache licenseCached (''repo:'' @ Client_owner licenseCached @ ''/''
              @ Client_repo licenseCached) \<noteq> Some (CachedRepository v)"
    by (simp add: licenseCached_def newClient_def)
  from all have fileRead: "reads_through_cache (GetFileContent ?E ''LICENSE'')
     (\<lambda>c. ''file:'' @ Client_owner c @ ''/'' @ Client_repo c @ ''/'' @ ''LICENSE'') CachedBytes"
    by simp
  from all have repoRead: "reads_through_cache (GetRepository ?E)
     (\<lambda>c. ''repo:'' @ Client_owner c @ ''/'' @ Client_repo c) CachedRepository"
    by simp
  from all have upd: "ignores_cache (UpdateRepository ?E emptyRepoUpdateRequest)"
    by simp
  from all have perm: "ignores_cache (GetWorkflowPermissions ?E)"
    "always_calls (GetWorkflowPermissions ?E)"
    by simp_all
  have a: "GetFileContent ?E ''LICENSE'' licenseCached = Some (Inr ''MIT License'', licenseCached)"
    using fileRead [unfolded reads_through_cache_def, rule_format, of licenseCached] hit by blast
  have b: "\<exists>r c'. GetRepository ?E licenseCached = Some (r, c') \<and> calls c' \<noteq> calls licenseCached"
    using repoRead [unfolded reads_through_cache_def, rule_format, of licenseCached] miss by blast
  have c: "\<exists>r c'. UpdateRepository ?E emptyRepoUpdateRequest licenseCached = Some (r, c')
         \<and> cache c' = cache licenseCached
         \<and> UpdateRepository ?E emptyRepoUpdateRequest
              (licenseCached\<lparr>cache := cache (newClient ''acme'' ''widget'')\<rparr>)
            = Some (r, c'\<lparr>cache := cache (newClient ''acme'' ''widget'')\<rparr>)"
    using upd [unfolded ignores_cache_def, rule_format, of licenseCached] by blast
  have d: "\<exists>r c'. GetWorkflowPermissions ?E licenseCached = Some (r, c')
         \<and> cache c' = cache licenseCached \<and> calls c' \<noteq> calls licenseCached"
    using perm(1) [unfolded ignores_cache_def, rule_format, of licenseCached]
      perm(2) [unfolded always_calls_def, rule_format, of licenseCached]
    by blast
  from hit miss a b c d show ?thesis by (intro conjI)
qed

text \<open>
  C3 as stated fails for \<^verbatim>\<open>GetWorkflowPermissions\<close>. On a client with an empty cache
  and a transport that answers with the permissions, the call succeeds with one
  request and leaves the cache as it was; a second call sends a second request.
\<close>

theorem GetWorkflowPermissions_not_cached:
  "GetWorkflowPermissions (sampleEnv permissionsTransport noFiles) (newClient ''acme'' ''widget'')
     = Some (Inr samplePermissions,
             (newClient ''acme'' ''widget'')
               \<lparr>calls := [(''GET'', ''repos/acme/widget/actions/permissions/workflow'', [])]\<rparr>)
   \<and> cache ((newClient ''acme'' ''widget'')
               \<lparr>calls := [(''GET'', ''repos/acme/widget/actions/permissions/workflow'', [])]\<rparr>)
       = cache (newClient ''acme'' ''widget'')
   \<and> GetWorkflowPermissions (sampleEnv permissionsTransport noFiles)
        ((newClient ''acme'' ''widget'')
           \<lparr>calls := [(''GET'', ''repos/acme/widget/actions/permissions/workflow'', [])]\<rparr>)
     = Some (Inr samplePermissions,
             (newClient ''acme'' ''widget'')
               \<lparr>calls := [(''GET'', ''repos/acme/widget/actions/permissions/workflow'', []),
                          (''GET'', ''repos/acme/widget/actions/permissions/workflow'', [])]\<rparr>)"
proof -
  let ?E = "sampleEnv permissionsTransport noFiles"
  let ?p = "''repos/acme/widget/actions/permissions/workflow''"
  have run: "doWithRetry ?E ''GET'' ?p None c =
      Some (Inr (WorkflowPermissionsPayload samplePermissions), c\<lparr>calls := calls c @ [(''GET'', ?p, [])]\<rparr>)"
    for c
    unfolding doWithRetry_def
    using loop_success_rest [of ?E "''GET''" None "[]" c ?p
        "WorkflowPermissionsPayload samplePermissions" initialBackoff 0]
    by (simp add: sent_body_def sampleEnv_def permissionsTransport_def)
  show ?thesis
    by (simp add: GetWorkflowPermissions_as_request run newClient_def decode_WorkflowPermissions_def)
qed

section \<open>Reference files\<close>

lemma count_list_dropWhile:
  "count_list (dropWhile (\<lambda>c. c \<noteq> sep) s) sep = count_list s sep"
  by (induction s) auto

lemma dropWhile_hit:
  "sep \<in> set s \<Longrightarrow>
   dropWhile (\<lambda>c. c \<noteq> sep) s = sep # tl (dropWhile (\<lambda>c. c \<noteq> sep) s)"
  by (induction s) auto

lemma count_list_zero: "count_list s sep = 0 \<longleftrightarrow> sep \<notin> set s"
  by (induction s) auto

lemma SplitN_3_short: "length (SplitN s sep 3) < 3 \<longleftrightarrow> count_list s sep < 2"
proof (cases "sep \<in> set s")
  case False
  then have "count_list s sep = 0" by (simp add: count_list_zero)
  with False show ?thesis by (simp add: numeral_3_eq_3)
next
  case True
  let ?rest = "tl (dropWhile (\<lambda>c. c \<noteq> sep) s)"
  have "count_list s sep = count_list (sep # ?rest) sep"
    using dropWhile_hit [OF True] count_list_dropWhile [of sep s] by simp
  then have cnt: "count_list s sep = Suc (count_list ?rest sep)" by simp
  have "length (SplitN s sep 3) < 3 \<longleftrightarrow> sep \<notin> set ?rest"
    using True by (simp add: numeral_3_eq_3)
  also have "\<dots> \<longleftrightarrow> count_list ?rest sep = 0" by (simp add: count_list_zero)
  also have "\<dots> \<longleftrightarrow> count_list s sep < 2" using cnt by auto
  finally show ?thesis .
qed

text \<open>
  C6. When the reference names a local file that can be read,
  \<^verbatim>\<open>ResolveReferenceFile\<close> returns its content and leaves the client as it was, so no
  request is sent, whether or not the reference also reads as \<^verbatim>\<open>owner/repo/path\<close>.
  A local read that fails for another reason than a missing file is returned as an
  error, again without a request. A run that sends a request is one whose local
  read found no file; and when no local file exists and the reference has its three
  parts, the result is that of \<^verbatim>\<open>GetRemoteFileContent\<close> on them, an error of it
  wrapped.
\<close>

theorem ResolveReferenceFile_local_first:
  "(\<forall>content. os_ReadFile env reference = ReadOk content \<longrightarrow>
      ResolveReferenceFile env reference c = Some (Inr content, c))
   \<and> (\<forall>e. os_ReadFile env reference = ReadFailed e \<longrightarrow>
      ResolveReferenceFile env reference c =
        Some (Inl (WrapError ''failed to read local reference file'' (LibraryError e)), c))
   \<and> (\<forall>r c'. ResolveReferenceFile env reference c = Some (r, c') \<and> calls c' \<noteq> calls c \<longrightarrow>
      (\<exists>e. os_ReadFile env reference = ReadNotExist e))
   \<and> (\<forall>e. os_ReadFile env reference = ReadNotExist e
          \<and> \<not> length (SplitN reference (CHR ''/'') 3) < 3 \<longrightarrow>
      ResolveReferenceFile env reference c =
        map_option
          (\<lambda>(r, c1). (case r of
               Inl err \<Rightarrow> Inl (WrapError ''failed to fetch remote reference file'' err)
             | Inr content \<Rightarrow> Inr content, c1))
          (GetRemoteFileContent env (SplitN reference (CHR ''/'') 3 ! 0)
             (SplitN reference (CHR ''/'') 3 ! 1) (SplitN reference (CHR ''/'') 3 ! 2) c))"
  by (cases "os_ReadFile env reference")
     (auto simp: ResolveReferenceFile_def Let_def split: option.split sum.split prod.split)

lemma ResolveReferenceFile_remote_sample:
  "ResolveReferenceFile (sampleEnv alwaysFailing noFiles) ''acme/policies/ruleset.json''
     (newClient ''acme'' ''widget'') =
   Some (Inl (WrapError ''failed to fetch remote reference file''
               (TransportError ''HTTP 500: Internal Server Error'')),
         (newClient ''acme'' ''widget'')
           \<lparr>calls := [(''GET'', ''repos/acme/policies/contents/ruleset.json'', [])]\<rparr>)"
proof -
  have "doWithRetry (sampleEnv alwaysFailing noFiles) ''GET''
          ''repos/acme/policies/contents/ruleset.json'' None (newClient ''acme'' ''widget'') =
        Some (Inl (TransportError ''HTTP 500: Internal Server Error''),
              (newClient ''acme'' ''widget'')
                \<lparr>calls := [(''GET'', ''repos/acme/policies/contents/ruleset.json'', [])]\<rparr>)"
    unfolding doWithRetry_def
    using loop_other_error_rest [of "sampleEnv alwaysFailing noFiles" "''GET''" None "[]"
        "newClient ''acme'' ''widget''" "''repos/acme/policies/contents/ruleset.json''"
        "''HTTP 500: Internal Server Error''" initialBackoff 0]
    by (simp add: sent_body_def sampleEnv_def alwaysFailing_def isRateLimitError_def newClient_def)
  then show ?thesis
    by (simp add: ResolveReferenceFile_def sampleEnv_def noFiles_def numeral_3_eq_3
        GetRemoteFileContent_def getFromCache_def newClient_def)
qed

theorem ResolveReferenceFile_local_first_witness:
  "os_ReadFile (sampleEnv alwaysFailing localRuleset) ''acme/policies/ruleset.json'' = ReadOk ''{}''
   \<and> \<not> length (SplitN ''acme/policies/ruleset.json'' (CHR ''/'') 3) < 3
   \<and> ResolveReferenceFile (sampleEnv alwaysFailing localRuleset) ''acme/policies/ruleset.json''
        (newClient ''acme'' ''widget'') = Some (Inr ''{}'', newClient ''acme'' ''widget'')
   \<and> os_ReadFile (sampleEnv alwaysFailing unreadable) ''acme/policies/ruleset.json''
        = ReadFailed ''permission denied''
   \<and> ResolveReferenceFile (sampleEnv alwaysFailing unreadable) ''acme/policies/ruleset.json''
        (newClient ''acme'' ''widget'') =
      Some (Inl (WrapError ''failed to read local reference file'' (LibraryError ''permission denied'')),
            newClient ''acme'' ''widget'')
   \<and> os_ReadFile (sampleEnv alwaysFailing noFiles) ''acme/policies/ruleset.json''
        = ReadNotExist ''no such file or directory''
   \<and> ResolveReferenceFile (sampleEnv alwaysFailing noFiles) ''acme/policies/ruleset.json''
        (newClient ''acme'' ''widget'') =
      map_option
        (\<lambda>(r, c1). (case r of
             Inl err \<Rightarrow> Inl (WrapError ''failed to fetch remote reference file'' err)
           | Inr content \<Rightarrow> Inr content, c1))
        (GetRemoteFileContent (sampleEnv alwaysFailing noFiles) ''acme'' ''policies''
           ''ruleset.json'' (newClient ''acme'' ''widget''))
   \<and> calls ((newClient ''acme'' ''widget'')
           \<lparr>calls := [(''GET'', ''repos/acme/policies/contents/ruleset.json'', [])]\<rparr>)
        \<noteq> calls (newClient ''acme'' ''widget'')"
proof -
  let ?ref = "''acme/policies/ruleset.json''"
  let ?c = "newClient ''acme'' ''widget''"
  have a: "os_ReadFile (sampleEnv alwaysFailing localRuleset) ?ref = ReadOk ''{}''"
    by (simp add: sampleEnv_def localRuleset_def)
  have b: "os_ReadFile (sampleEnv alwaysFailing unreadable) ?ref = ReadFailed ''permission denied''"
    by (simp add: sampleEnv_def unreadable_def)
  have n: "os_ReadFile (sampleEnv alwaysFailing noFiles) ?ref
        = ReadNotExist ''no such file or directory''"
    by (simp add: sampleEnv_def noFiles_def)
  have parts: "\<not> length (SplitN ?ref (CHR ''/'') 3) < 3"
    "SplitN ?ref (CHR ''/'') 3 ! 0 = ''acme''" "SplitN ?ref (CHR ''/'') 3 ! 1 = ''policies''"
    "SplitN ?ref (CHR ''/'') 3 ! 2 = ''ruleset.json''"
    by (simp_all add: numeral_3_eq_3)
  have c: "calls (?c\<lparr>calls := [(''GET'', ''repos/acme/policies/contents/ruleset.json'', [])]\<rparr>)
        \<noteq> calls ?c"
    by (simp add: newClient_def)
  note inst = ResolveReferenceFile_local_first [of _ ?ref ?c]
  have ra: "ResolveReferenceFile (sampleEnv alwaysFailing localRuleset) ?ref ?c = Some (Inr ''{}'', ?c)"
    using inst [of "sampleEnv alwaysFailing localRuleset"] a by blast
  have rb: "ResolveReferenceFile (sampleEnv alwaysFailing unreadable) ?ref ?c =
      Some (Inl (WrapError ''failed to read local reference file'' (LibraryError ''permission denied'')), ?c)"
    using inst [of "sampleEnv alwaysFailing unreadable"] b by blast
  have rn: "ResolveReferenceFile (sampleEnv alwaysFailing noFiles) ?ref ?c =
      map_option
        (\<lambda>(r, c1). (case r of
             Inl err \<Rightarrow> Inl (WrapError ''failed to fetch remote reference file'' err)
           | Inr content \<Rightarrow> Inr content, c1))
        (GetRemoteFileContent (sampleEnv alwaysFailing noFiles) ''acme'' ''policies''
           ''ruleset.json'' ?c)"
    using inst [of "sampleEnv alwaysFailing noFiles"] n parts by simp
  have "\<exists>e. os_ReadFile (sampleEnv alwaysFailing noFiles) ?ref = ReadNotExist e"
    using inst [of "sampleEnv alwaysFailing noFiles"] ResolveReferenceFile_remote_sample c
    by blast
  with a b n parts(1) c ra rb rn show ?thesis by simp
qed

text \<open>
  C7. A reference with fewer than two \<^verbatim>\<open>/\<close> for which no local file exists fails with
  the format error that names the expected \<^verbatim>\<open>owner/repo/path\<close> form; the client is
  returned as it was, so no request was sent and the failure does not come from the
  transport.
\<close>

theorem ResolveReferenceFile_format_error:
  assumes "count_list reference (CHR ''/'') < 2"
      and "os_ReadFile env reference = ReadNotExist e"
  shows "ResolveReferenceFile env reference c =
     Some (Inl (ErrorString (''reference file '' @ quoted reference
             @ '' not found locally and invalid remote format (expected owner/repo/path)'')), c)"
  using assms by (simp add: ResolveReferenceFile_def SplitN_3_short)

theorem ResolveReferenceFile_format_error_witness:
  "count_list ''owner/ruleset.json'' (CHR ''/'') < 2
   \<and> os_ReadFile (sampleEnv (\<lambda>n m p b. Failure ''offline'') (\<lambda>p. ReadNotExist ''no such file''))
        ''owner/ruleset.json'' = ReadNotExist ''no such file''
   \<and> ResolveReferenceFile (sampleEnv (\<lambda>n m p b. Failure ''offline'') (\<lambda>p. ReadNotExist ''no such file''))
        ''owner/ruleset.json'' (newClient ''acme'' ''widget'') =
      Some (Inl (ErrorString (''reference file '' @ quoted ''owner/ruleset.json''
             @ '' not found locally and invalid remote format (expected owner/repo/path)'')),
            newClient ''acme'' ''widget'')"
  using ResolveReferenceFile_format_error
    [of "''owner/ruleset.json''" "sampleEnv (\<lambda>n m p b. Failure ''offline'') (\<lambda>p. ReadNotExist ''no such file'')"
        "''no such file''" "newClient ''acme'' ''widget''"]
  by (simp add: sampleEnv_def)

section \<open>The orchestrator\<close>

lemma Fix_loop_handled:
  assumes "fixers_return fixers"
  shows "\<exists>r w1. handled fixers issue w r w1
     \<and> (\<forall>issues results. Fix_loop fixers (issue # issues) results w =
                           Fix_loop fixers issues (results @ [r]) w1)"
proof (cases "Fixable issue")
  case False
  then show ?thesis
    by (intro exI [of _ "\<lparr> Issue = issue, Fixed = False,
                           Error = Some (ErrorString ''issue is not fixable'') \<rparr>"] exI [of _ w])
       (simp add: handled_def)
next
  case fixable: True
  show ?thesis
  proof (cases "fixers (Issue_Type issue)")
    case None
    with fixable show ?thesis
      by (intro exI [of _ "\<lparr> Issue = issue, Fixed = False,
                             Error = Some (ErrorString (''no fixer for check type ''
                                                        @ quoted (Issue_Type issue))) \<rparr>"]
                exI [of _ w])
         (simp add: handled_def)
  next
    case (Some fixer)
    with assms obtain out w1 where out: "fixer issue w = Some (Inr out, w1)"
      unfolding fixers_return_def by blast
    with fixable Some show ?thesis
      by (intro exI [of _ "case out of
                             Inl err \<Rightarrow> \<lparr> Issue = issue, Fixed = False, Error = Some err \<rparr>
                           | Inr result \<Rightarrow> result"] exI [of _ w1])
         (simp add: handled_def split: sum.split)
  qed
qed

lemma Fix_loop_trace:
  assumes "fixers_return fixers"
  shows "\<exists>rs ws. Fix_loop fixers issues results w = Some (Inr (results @ rs), ws ! length issues)
     \<and> length rs = length issues \<and> length ws = Suc (length issues) \<and> ws ! 0 = w
     \<and> (\<forall>i < length issues. handled fixers (issues ! i) (ws ! i) (rs ! i) (ws ! Suc i))"
proof (induction issues arbitrary: results w)
  case Nil
  show ?case by (intro exI [of _ "[]"] exI [of _ "[w]"]) simp
next
  case (Cons x xs)
  from Fix_loop_handled [OF assms, of x w]
  obtain r w1 where t: "handled fixers x w r w1"
    and step: "\<And>issues results. Fix_loop fixers (x # issues) results w =
                           Fix_loop fixers issues (results @ [r]) w1"
    by blast
  from Cons.IH [of "results @ [r]" w1]
  obtain rs ws where run: "Fix_loop fixers xs (results @ [r]) w1 =
        Some (Inr ((results @ [r]) @ rs), ws ! length xs)"
    and len: "length rs = length xs" "length ws = Suc (length xs)" and w0: "ws ! 0 = w1"
    and each: "\<forall>i < length xs. handled fixers (xs ! i) (ws ! i) (rs ! i) (ws ! Suc i)"
    by blast
  have "\<forall>i < length (x # xs).
          handled fixers ((x # xs) ! i) ((w # ws) ! i) ((r # rs) ! i) ((w # ws) ! Suc i)"
  proof (intro allI impI)
    fix i assume "i < length (x # xs)"
    then show "handled fixers ((x # xs) ! i) ((w # ws) ! i) ((r # rs) ! i) ((w # ws) ! Suc i)"
      using t w0 each by (cases i) simp_all
  qed
  moreover have "Fix_loop fixers (x # xs) results w =
      Some (Inr (results @ (r # rs)), (w # ws) ! length (x # xs))"
    unfolding step using run by simp
  ultimately show ?case using len
    by (intro exI [of _ "r # rs"] exI [of _ "w # ws"]) (simp del: Fix_loop.simps)
qed

lemma handled_keeps_issue:
  assumes k: "fixers_keep_issue fixers" and t: "handled fixers issue w r w1"
  shows "Issue r = issue"
proof (cases "Fixable issue")
  case False
  with t show ?thesis by (simp add: handled_def)
next
  case fixable: True
  show ?thesis
  proof (cases "fixers (Issue_Type issue)")
    case None
    with t fixable show ?thesis by (simp add: handled_def)
  next
    case (Some fixer)
    with t fixable obtain out where out: "fixer issue w = Some (Inr out, w1)"
      and r: "r = (case out of
                     Inl err \<Rightarrow> \<lparr> Issue = issue, Fixed = False, Error = Some err \<rparr>
                   | Inr result \<Rightarrow> result)"
      unfolding handled_def by blast
    show ?thesis
    proof (cases out)
      case (Inl err)
      with r show ?thesis by simp
    next
      case (Inr result)
      with out Some k have "Issue result = issue"
        unfolding fixers_keep_issue_def by blast
      with r Inr show ?thesis by simp
    qed
  qed
qed

text \<open>
  What \<^verbatim>\<open>Orchestrator.Fix\<close> does when every registered fixer returns. It returns, with
  the nil error, one result for each issue, in the order of the issues. The states
  \<open>ws\<close> are those the call goes through, from the state \<open>w\<close> it starts in to the one it
  ends in: the \<open>i\<close>-th issue is met in the state \<open>ws ! i\<close> and leaves \<open>ws ! Suc i\<close>, and
  the \<open>i\<close>-th result is what \<open>handled\<close> asks for. The results carry their issues when
  those of the fixers do.
\<close>

lemma Orchestrator_Fix_when_fixers_return:
  assumes "fixers_return fixers"
  shows "\<exists>results ws.
       Orchestrator_Fix fixers issues w = Some (Inr (Inr results), ws ! length issues)
     \<and> length results = length issues \<and> length ws = Suc (length issues) \<and> ws ! 0 = w
     \<and> (\<forall>i < length issues. handled fixers (issues ! i) (ws ! i) (results ! i) (ws ! Suc i))
     \<and> (fixers_keep_issue fixers \<longrightarrow> (\<forall>i < length issues. Issue (results ! i) = issues ! i))"
proof -
  from Fix_loop_trace [OF assms, of issues "[]" w]
  obtain rs ws where run: "Fix_loop fixers issues [] w = Some (Inr ([] @ rs), ws ! length issues)"
    and len: "length rs = length issues" "length ws = Suc (length issues)" "ws ! 0 = w"
    and each: "\<forall>i < length issues. handled fixers (issues ! i) (ws ! i) (rs ! i) (ws ! Suc i)"
    by blast
  have keep: "fixers_keep_issue fixers \<longrightarrow> (\<forall>i < length issues. Issue (rs ! i) = issues ! i)"
  proof (intro impI allI)
    fix i assume k: "fixers_keep_issue fixers" and "i < length issues"
    with each have "handled fixers (issues ! i) (ws ! i) (rs ! i) (ws ! Suc i)" by simp
    with k show "Issue (rs ! i) = issues ! i" by (rule handled_keeps_issue)
  qed
  show ?thesis
  proof (intro exI conjI)
    from run show "Orchestrator_Fix fixers issues w = Some (Inr (Inr rs), ws ! length issues)"
      by (simp add: Orchestrator_Fix_def)
    show "length rs = length issues" by (rule len(1))
    show "length ws = Suc (length issues)" by (rule len(2))
    show "ws ! 0 = w" by (rule len(3))
    show "\<forall>i < length issues. handled fixers (issues ! i) (ws ! i) (rs ! i) (ws ! Suc i)"
      by (rule each)
    show "fixers_keep_issue fixers \<longrightarrow> (\<forall>i < length issues. Issue (rs ! i) = issues ! i)"
      by (rule keep)
  qed
qed

text \<open>
  The results of \<^verbatim>\<open>SettingsFixer.Fix\<close> carry the issue it was given: it returns through
  \<^verbatim>\<open>failedResult\<close> and \<^verbatim>\<open>successResult\<close> alone.
\<close>

lemma SettingsFixer_Fix_keeps_issue:
  "SettingsFixer_Fix env config issue c = Some (Inr (Inr result), c1) \<Longrightarrow> Issue result = issue"
  by (auto simp: SettingsFixer_Fix_def fixActionsApprove_def fixDependabotAlerts_def
      fixDependabotSecurityUpdates_def failedResult_def successResult_def Let_def
      split: if_splits option.splits sum.splits prod.splits)

text \<open>
  A run on four issues, started in the state 1. The first two results are built by
  the orchestrator and leave the state alone. The fixer is called for the third issue
  in the state 1 and succeeds, and for the fourth in the state 2, its third call, and
  fails: the fourth result is the failure with the fixer's error.
\<close>

lemma Orchestrator_Fix_sample_run:
  "Orchestrator_Fix sampleRegistry sampleIssues 1 =
     Some (Inr (Inr [\<lparr> Issue = sampleIssues ! 0, Fixed = False,
                        Error = Some (ErrorString ''issue is not fixable'') \<rparr>,
                      \<lparr> Issue = sampleIssues ! 1, Fixed = False,
                        Error = Some (ErrorString (''no fixer for check type '' @ quoted ''files'')) \<rparr>,
                      \<lparr> Issue = sampleIssues ! 2, Fixed = True, Error = None \<rparr>,
                      \<lparr> Issue = sampleIssues ! 3, Fixed = False,
                        Error = Some (ErrorString ''third call'') \<rparr>]), 3)"
  by (simp add: Orchestrator_Fix_def sampleRegistry_def sampleIssues_def sampleIssue_def
      countingFixer_def successResult_def CheckTypeSettings_def CheckTypeFiles_def)

text \<open>
  C8, the code at the failing input. The claim has \<^verbatim>\<open>Orchestrator.Fix\<close> return one
  result for each issue and never abort the batch. \<^verbatim>\<open>NewOrchestrator\<close> registers
  \<^verbatim>\<open>SettingsFixer\<close> for the settings, with the settings of the configuration, and
  \<^verbatim>\<open>SettingsFixer.Fix\<close> panics on a merge setting when \<^verbatim>\<open>Merge\<close> is nil, where its
  test \<^verbatim>\<open>TestSettingsFixer_Fix_NilMergeConfig\<close> wants a failed result. Nothing
  recovers from the panic, so it ends \<^verbatim>\<open>Orchestrator.Fix\<close>: on a list of three issues
  whose second is such a merge setting, whatever else is registered, the call panics
  and returns no result list, neither the result already built for the first issue
  nor one for the third.
\<close>

theorem Orchestrator_Fix_aborts_on_panic:
  "Orchestrator_Fix
     (fixers(CheckTypeSettings \<mapsto> SettingsFixer_Fix env (Some emptySettingsConfig)))
     [sampleIssue CheckTypeSettings False, mergeSettingIssue ''merge_commit'',
      sampleIssue CheckTypeSettings False] c
   = Some (Inl NilPointerDereference, c)"
  by (simp add: Orchestrator_Fix_def sampleIssue_def mergeSettingIssue_def
      SettingsFixer_Fix_def Data_get_def settingsRequest_def
      config_Merge_field_def emptySettingsConfig_def)

end
